theory Spec2Isabelle
  imports Main
begin

section \<open>Cargo integration of the debugger extension (\<open>src/extension/cargo.ts\<close>)\<close>

text \<open>
  A shallow embedding of the class \<open>Cargo\<close>: running the build tool and reading its
  line-delimited JSON output (\<open>runCargo\<close>), collecting compilation artifacts
  (\<open>getCargoArtifacts\<close>), resolving the program to debug (\<open>getProgramFromArtifacts\<close>,
  \<open>getProgramFromCargoConfig\<close>) and synthesising launch configurations
  (\<open>getLaunchConfigs\<close>).

  Conventions of the embedding:
  \<^item> a JavaScript value that may be \<open>undefined\<close> is an \<open>option\<close>; a field that may be
    absent, \<open>null\<close> or present is a \<open>js_field\<close>;
  \<^item> a thrown value is the left injection of a sum, \<open>js_error + 'a\<close>;
  \<^item> a callback that acts on its environment is a function on an explicit state;
  \<^item> text written to the output channel or to the console is returned as a list of lines;
  \<^item> \<open>JSON.parse\<close>, \<open>util.inspect\<close>, \<open>formatError\<close>, the spawned process and the host's
    resolution of variables are parameters of the model.
\<close>

subsection \<open>JavaScript values and library functions\<close>

datatype 'a js_field = Undefined | Null | Value 'a

text \<open>
  Thrown values: a plain \<open>Error\<close> with its message, the error that \<open>child_process\<close>
  emits when spawning fails (it carries a \<open>code\<close> such as \<open>ENOENT\<close>), and
  \<open>ErrorWithCause\<close> with its message and its cause.
\<close>

datatype js_error =
    Error string
  | SpawnError string
  | ErrorWithCause string js_error

text \<open>The property \<open>e.code\<close> of a thrown value.\<close>

fun error_code :: "js_error \<Rightarrow> string option" where
  "error_code (SpawnError c) = Some c"
| "error_code (Error m) = None"
| "error_code (ErrorWithCause m e) = None"

text \<open>\<open>String.prototype.startsWith\<close> and \<open>String.prototype.endsWith\<close>.\<close>

definition startsWith :: "string \<Rightarrow> string \<Rightarrow> bool" where
  "startsWith s p = (take (length p) s = p)"

definition endsWith :: "string \<Rightarrow> string \<Rightarrow> bool" where
  "endsWith s p = (length p \<le> length s \<and> drop (length s - length p) s = p)"

text \<open>\<open>Array.prototype.indexOf\<close>: the first index of the element, or \<open>-1\<close>.\<close>

fun indexOf :: "'a list \<Rightarrow> 'a \<Rightarrow> int" where
  "indexOf [] y = -1"
| "indexOf (x # xs) y =
     (if x = y then 0 else (let i = indexOf xs y in if i < 0 then -1 else i + 1))"

text \<open>
  \<open>Array.prototype.splice(start, 0, items...)\<close> for \<open>0 \<le> start\<close>: nothing is deleted and
  the items are inserted at \<open>start\<close> (at the end when \<open>start\<close> exceeds the length).
\<close>

definition splice_insert :: "'a list \<Rightarrow> nat \<Rightarrow> 'a list \<Rightarrow> 'a list" where
  "splice_insert xs start items = take start xs @ items @ drop start xs"

text \<open>\<open>Array.prototype.join\<close> on strings.\<close>

fun join :: "string list \<Rightarrow> string \<Rightarrow> string" where
  "join [] sep = []"
| "join [x] sep = x"
| "join (x # y # ys) sep = x @ sep @ join (y # ys) sep"

text \<open>\<open>xs[i]\<close> on an array: \<open>undefined\<close> out of range.\<close>

definition at_index :: "'a list \<Rightarrow> nat \<Rightarrow> 'a option" where
  "at_index xs i = (if i < length xs then Some (xs ! i) else None)"

subsection \<open>Data\<close>

text \<open>
  \<open>CompilationArtifact\<close>. Its \<open>kind\<close> is read from \<open>message.target.kind[i]\<close>, which is
  \<open>undefined\<close> when the index is out of range, hence the \<open>option\<close>.
\<close>

record CompilationArtifact =
  fileName :: string
  artifact_name :: string
  artifact_kind :: "string option"

text \<open>The member \<open>filter\<close> of \<open>CargoConfig\<close>: both fields are optional.\<close>

record artifact_filter =
  filter_name :: "string option"
  filter_kind :: "string option"

text \<open>A target, as it appears in a compiler-artifact message and in the metadata.\<close>

record cargo_target =
  target_name :: string
  target_kind :: "string list"
  crate_types :: "string list"

text \<open>
  A parsed line of \<open>cargo --message-format=json\<close>, with the fields the code reads:
  \<open>reason\<close>, \<open>target\<close>, \<open>profile.test\<close>, \<open>executable\<close>, \<open>filenames\<close> and
  \<open>message.rendered\<close>. Messages are taken to follow the schema of cargo: the fields that
  the code reads without a test are present and have their type, and \<open>executable\<close> is
  the one field that may be absent (older versions of cargo) or \<open>null\<close>.
\<close>

record cargo_message =
  reason :: string
  target :: cargo_target
  profile_test :: bool
  executable :: "string js_field"
  filenames :: "string list"
  rendered :: string

subsection \<open>\<open>getProgramFromArtifacts\<close>\<close>

text \<open>The predicate given to \<open>artifacts.filter\<close> when a filter is supplied.\<close>

definition filter_pred :: "artifact_filter \<Rightarrow> CompilationArtifact \<Rightarrow> bool" where
  "filter_pred f a =
     (if filter_name f \<noteq> None \<and> Some (artifact_name a) \<noteq> filter_name f then False
      else if filter_kind f \<noteq> None \<and> artifact_kind a \<noteq> filter_kind f then False
      else True)"

definition no_matching_msg :: string where
  "no_matching_msg = ''Cargo has produced no matching compilation artifacts.''"

definition more_than_one_msg :: string where
  "more_than_one_msg = ''Cargo has produced more than one matching compilation artifact.''"

text \<open>
  The function returns the lines appended to the output channel together with its
  result: the file name, or the thrown error.
\<close>

definition getProgramFromArtifacts ::
  "(CompilationArtifact \<Rightarrow> string) \<Rightarrow> CompilationArtifact list \<Rightarrow> artifact_filter option
     \<Rightarrow> string list \<times> (js_error + string)" where
  "getProgramFromArtifacts inspect artifacts flt =
     (let log1 = ''Raw artifacts:'' # map inspect artifacts;
          artifacts' = (case flt of
                          None \<Rightarrow> artifacts
                        | Some f \<Rightarrow> filter (filter_pred f) artifacts);
          log2 = ''Filtered artifacts: '' # map inspect artifacts'
      in if length artifacts' = 0 then (log1 @ log2, Inl (Error no_matching_msg))
         else if length artifacts' > 1 then (log1 @ log2, Inl (Error more_than_one_msg))
         else (log1 @ log2, Inr (fileName (artifacts' ! 0))))"

text \<open>
  The specification's wording of the filter: an artifact is kept when every filter field
  that is set equals the corresponding artifact field; no filter keeps everything.
\<close>

definition spec_keeps :: "artifact_filter option \<Rightarrow> CompilationArtifact \<Rightarrow> bool" where
  "spec_keeps flt a =
     (case flt of
        None \<Rightarrow> True
      | Some f \<Rightarrow>
          (case filter_name f of None \<Rightarrow> True | Some n \<Rightarrow> artifact_name a = n) \<and>
          (case filter_kind f of None \<Rightarrow> True | Some k \<Rightarrow> artifact_kind a = Some k))"

subsection \<open>\<open>runCargo\<close>\<close>

text \<open>
  The spawned process is seen through the events it delivers before the promise of
  \<open>runCargo\<close> settles, in the order of their delivery: complete lines of its standard
  output (from \<open>readline\<close>) and chunks of its standard error, followed by either the
  \<open>close\<close> event with the exit code (\<open>null\<close> when a signal ended the process) or the
  \<open>error\<close> event with the error of the failed spawn.
\<close>

datatype proc_event = StdoutLine string | StderrChunk string

datatype proc_end = Close "int option" | Failed js_error

record cargo_process =
  events :: "proc_event list"
  ending :: proc_end

text \<open>The text that the line handler writes with \<open>console.error\<close>.\<close>

definition parse_error_msg :: "string \<Rightarrow> string \<Rightarrow> string" where
  "parse_error_msg err line =
     ''Could not parse JSON: '' @ err @ '' in '' @ [CHR 0x22] @ line @ [CHR 0x22]"

text \<open>
  The handler of \<open>rl.on('line', ...)\<close>. \<open>parse\<close> stands for \<open>JSON.parse\<close>: it yields the
  parsed value, or on the left the text of the exception it throws. The state is a pair
  of the state the callbacks act on and the lines written to the console.
\<close>

definition on_line ::
  "(string \<Rightarrow> string + 'j) \<Rightarrow> ('j \<Rightarrow> 's \<Rightarrow> 's) \<Rightarrow> string \<Rightarrow> 's \<times> string list
     \<Rightarrow> 's \<times> string list" where
  "on_line parse onStdoutJson line sc =
     (if startsWith line ''{'' then
        (case parse line of
           Inl err \<Rightarrow> (fst sc, snd sc @ [parse_error_msg err line])
         | Inr json \<Rightarrow> (onStdoutJson json (fst sc), snd sc))
      else sc)"

text \<open>The handler of \<open>cargo.stderr.on('data', ...)\<close>.\<close>

definition on_stderr_data ::
  "(string \<Rightarrow> 's \<Rightarrow> 's) \<Rightarrow> string \<Rightarrow> 's \<times> string list \<Rightarrow> 's \<times> string list" where
  "on_stderr_data onStderrString chunk sc = (onStderrString chunk (fst sc), snd sc)"

fun on_event ::
  "(string \<Rightarrow> string + 'j) \<Rightarrow> ('j \<Rightarrow> 's \<Rightarrow> 's) \<Rightarrow> (string \<Rightarrow> 's \<Rightarrow> 's) \<Rightarrow> proc_event
     \<Rightarrow> 's \<times> string list \<Rightarrow> 's \<times> string list" where
  "on_event parse onStdoutJson onStderrString (StdoutLine line) sc =
     on_line parse onStdoutJson line sc"
| "on_event parse onStdoutJson onStderrString (StderrChunk chunk) sc =
     on_stderr_data onStderrString chunk sc"

text \<open>
  \<open>runCargo\<close>. \<open>spawn\<close> stands for \<open>cp.spawn\<close> with the configured command and the merged
  environment: it maps the argument list and the working directory to the behaviour of
  the process. \<open>wsPath\<close> is \<open>this.workspaceFolder.uri.fsPath\<close>. The result is the state
  after all callbacks, the console lines, and the settled promise: the exit code, or
  the rejection.
\<close>

definition runCargo ::
  "(string list \<Rightarrow> string \<Rightarrow> cargo_process) \<Rightarrow> (string \<Rightarrow> string + 'j) \<Rightarrow> string
     \<Rightarrow> string list \<Rightarrow> string option \<Rightarrow> ('j \<Rightarrow> 's \<Rightarrow> 's) \<Rightarrow> (string \<Rightarrow> 's \<Rightarrow> 's) \<Rightarrow> 's
     \<Rightarrow> 's \<times> string list \<times> (js_error + int option)" where
  "runCargo spawn parse wsPath cargo_args cwd onStdoutJson onStderrString s =
     (let cargoCwd = (case cwd of
                        None \<Rightarrow> wsPath
                      | Some d \<Rightarrow> if d = [] then wsPath else d);
          cargo = spawn cargo_args cargoCwd;
          sc = fold (on_event parse onStdoutJson onStderrString) (events cargo) (s, [])
      in (fst sc, snd sc,
          (case ending cargo of
             Failed err \<Rightarrow> Inl err
           | Close exitCode \<Rightarrow> Inr exitCode)))"

text \<open>
  An event hands a parsed value to \<open>onStdoutJson\<close>: a line of the standard output that
  starts with the open brace and that \<open>JSON.parse\<close> accepts.
\<close>

definition delivers_payload :: "(string \<Rightarrow> string + 'j) \<Rightarrow> proc_event \<Rightarrow> bool" where
  "delivers_payload parse e =
     (case e of
        StdoutLine line \<Rightarrow> startsWith line ''{'' \<and> \<not> isl (parse line)
      | StderrChunk chunk \<Rightarrow> False)"

subsection \<open>\<open>getCargoArtifacts\<close>\<close>

text \<open>The loop over \<open>message.filenames\<close> for messages of older versions of cargo.\<close>

definition older_cargo_step ::
  "cargo_message \<Rightarrow> nat \<Rightarrow> CompilationArtifact list \<Rightarrow> CompilationArtifact list" where
  "older_cargo_step message i artifacts =
     (if endsWith (filenames message ! i) ''.dSYM'' then artifacts
      else artifacts @
        [\<lparr>fileName = filenames message ! i,
          artifact_name = target_name (target message),
          artifact_kind = at_index (target_kind (target message)) i\<rparr>])"

definition older_cargo_loop ::
  "cargo_message \<Rightarrow> CompilationArtifact list \<Rightarrow> CompilationArtifact list" where
  "older_cargo_loop message artifacts =
     fold (older_cargo_step message) [0 ..< length (filenames message)] artifacts"

text \<open>
  The callback given to \<open>runCargo\<close> for parsed messages. It acts on the artifacts
  collected so far and on the state of the caller's \<open>onMessage\<close>.
\<close>

definition on_cargo_message ::
  "(string \<Rightarrow> 's \<Rightarrow> 's) \<Rightarrow> cargo_message \<Rightarrow> CompilationArtifact list \<times> 's
     \<Rightarrow> CompilationArtifact list \<times> 's" where
  "on_cargo_message onMessage message st =
     (if reason message = ''compiler-artifact'' then
        (let isBinary = ''bin'' \<in> set (crate_types (target message));
             isBuildScript = ''custom-build'' \<in> set (target_kind (target message))
         in if (isBinary \<and> \<not> isBuildScript) \<or> profile_test message then
              (case executable message of
                 Value exe \<Rightarrow>
                   (fst st @
                      [\<lparr>fileName = exe,
                        artifact_name = target_name (target message),
                        artifact_kind = at_index (target_kind (target message)) 0\<rparr>],
                    snd st)
               | Null \<Rightarrow> st
               | Undefined \<Rightarrow> (older_cargo_loop message (fst st), snd st))
            else st)
      else if reason message = ''compiler-message'' then
        (fst st, onMessage (rendered message) (snd st))
      else st)"

text \<open>The condition under which the callback extracts artifacts from a message.\<close>

definition collection_condition :: "cargo_message \<Rightarrow> bool" where
  "collection_condition message =
     ((''bin'' \<in> set (crate_types (target message))
         \<and> ''custom-build'' \<notin> set (target_kind (target message)))
      \<or> profile_test message)"

text \<open>
  The specification's wording of that condition: the kind list contains \<open>bin\<close> and not
  \<open>custom-build\<close>, or the profile is a test profile.
\<close>

definition spec_collection_condition :: "cargo_message \<Rightarrow> bool" where
  "spec_collection_condition message =
     ((''bin'' \<in> set (target_kind (target message))
         \<and> ''custom-build'' \<notin> set (target_kind (target message)))
      \<or> profile_test message)"

definition invocation_failed_msg :: string where
  "invocation_failed_msg = ''Cargo invocation failed.''"

definition getCargoArtifacts ::
  "(string list \<Rightarrow> string \<Rightarrow> cargo_process) \<Rightarrow> (string \<Rightarrow> string + cargo_message) \<Rightarrow> string
     \<Rightarrow> string list \<Rightarrow> string option \<Rightarrow> (string \<Rightarrow> 's \<Rightarrow> 's) \<Rightarrow> 's
     \<Rightarrow> 's \<times> string list \<times> (js_error + CompilationArtifact list)" where
  "getCargoArtifacts spawn parse wsPath cargoArgs cargoCwd onMessage s =
     (let r = runCargo spawn parse wsPath cargoArgs cargoCwd
                (on_cargo_message onMessage)
                (\<lambda>data st. (fst st, onMessage data (snd st)))
                ([], s)
      in (snd (fst r), fst (snd r),
          (case snd (snd r) of
             Inl err \<Rightarrow> Inl (ErrorWithCause invocation_failed_msg err)
           | Inr exitCode \<Rightarrow> Inr (fst (fst r)))))"

subsection \<open>\<open>getLaunchConfigs\<close>\<close>

text \<open>The member \<open>cargo\<close> of a launch configuration, and the configuration itself.\<close>

record cargo_section =
  cargo_args :: "string list"
  cargo_filter :: artifact_filter
  cargo_cwd :: "string option"

record DebugConfiguration =
  config_type :: string
  request :: string
  config_name :: string
  program :: "string option"
  cargo :: "cargo_section option"
  args :: "string list"
  cwd :: string

text \<open>The document printed by \<open>cargo metadata\<close>, with the fields the code reads.\<close>

record cargo_package =
  package_name :: string
  targets :: "cargo_target list"

record cargo_metadata =
  packages :: "cargo_package list"

definition DEFAULT_LAUNCH_CONFIGS :: "DebugConfiguration list" where
  "DEFAULT_LAUNCH_CONFIGS =
     [\<lparr>config_type = ''lldb'',
       request = ''launch'',
       config_name = ''Debug'',
       program = Some ''${workspaceFolder}/<executable file>'',
       cargo = None,
       args = [],
       cwd = ''${workspaceFolder}''\<rparr>]"

text \<open>
  The local function \<open>addConfig\<close>, closed over the package and the directory; the list
  \<open>configs\<close> it pushes to is passed and returned.
\<close>

definition addConfig ::
  "cargo_package \<Rightarrow> string option \<Rightarrow> string \<Rightarrow> string list \<Rightarrow> artifact_filter
     \<Rightarrow> DebugConfiguration list \<Rightarrow> DebugConfiguration list" where
  "addConfig pkg directory name cargo_args' flt configs =
     configs @
       [\<lparr>config_type = ''lldb'',
         request = ''launch'',
         config_name = name,
         program = None,
         cargo = Some
           \<lparr>cargo_args = cargo_args' @ [''--package='' @ package_name pkg],
            cargo_filter = flt,
            cargo_cwd = (case directory of
                           None \<Rightarrow> None
                         | Some d \<Rightarrow> if d = [] then None else Some d)\<rparr>,
         args = [],
         cwd = ''${workspaceFolder}''\<rparr>]"

text \<open>
  The body of the loop over \<open>target.kind\<close>: the \<open>switch\<close> on the kind. The state is the
  flag \<open>libAdded\<close> and the list \<open>configs\<close>.
\<close>

definition kind_step ::
  "cargo_package \<Rightarrow> string option \<Rightarrow> cargo_target \<Rightarrow> string \<Rightarrow> bool \<times> DebugConfiguration list
     \<Rightarrow> bool \<times> DebugConfiguration list" where
  "kind_step pkg directory tgt kind st =
     (if kind = ''lib'' \<or> kind = ''rlib'' \<or> kind = ''staticlib'' \<or> kind = ''dylib''
          \<or> kind = ''cstaticlib'' then
        (if \<not> fst st then
           (True,
            addConfig pkg directory
              (''Debug unit tests in library '' @ [CHR 0x27] @ target_name tgt @ [CHR 0x27])
              [''test'', ''--no-run'', ''--lib'']
              \<lparr>filter_name = Some (target_name tgt), filter_kind = Some ''lib''\<rparr>
              (snd st))
         else st)
      else if kind = ''bin'' \<or> kind = ''example'' then
        (let prettyKind = (if kind = ''bin'' then ''executable'' else kind)
         in (fst st,
             addConfig pkg directory
               (''Debug unit tests in '' @ prettyKind @ '' '' @ [CHR 0x27] @ target_name tgt
                  @ [CHR 0x27])
               [''test'', ''--no-run'', ''--'' @ kind @ ''='' @ target_name tgt]
               \<lparr>filter_name = Some (target_name tgt), filter_kind = Some kind\<rparr>
               (addConfig pkg directory
                  (''Debug '' @ prettyKind @ '' '' @ [CHR 0x27] @ target_name tgt @ [CHR 0x27])
                  [''build'', ''--'' @ kind @ ''='' @ target_name tgt]
                  \<lparr>filter_name = Some (target_name tgt), filter_kind = Some kind\<rparr>
                  (snd st))))
      else if kind = ''bench'' \<or> kind = ''test'' then
        (let prettyKind = (if kind = ''bench'' then ''benchmark''
                           else if kind = ''test'' then ''integration test'' else kind)
         in (fst st,
             addConfig pkg directory
               (''Debug '' @ prettyKind @ '' '' @ [CHR 0x27] @ target_name tgt @ [CHR 0x27])
               [''test'', ''--no-run'', ''--'' @ kind @ ''='' @ target_name tgt]
               \<lparr>filter_name = Some (target_name tgt), filter_kind = Some kind\<rparr>
               (snd st)))
      else st)"

text \<open>The loop over the kinds of one target; \<open>libAdded\<close> starts as \<open>false\<close>.\<close>

definition target_step ::
  "cargo_package \<Rightarrow> string option \<Rightarrow> cargo_target \<Rightarrow> DebugConfiguration list
     \<Rightarrow> DebugConfiguration list" where
  "target_step pkg directory tgt configs =
     snd (fold (kind_step pkg directory tgt) (target_kind tgt) (False, configs))"

definition package_step ::
  "string option \<Rightarrow> cargo_package \<Rightarrow> DebugConfiguration list \<Rightarrow> DebugConfiguration list" where
  "package_step directory pkg configs = fold (target_step pkg directory) (targets pkg) configs"

text \<open>The kinds of the first group of \<open>case\<close> labels, and the name given to their configuration.\<close>

definition is_library_kind :: "string \<Rightarrow> bool" where
  "is_library_kind kind =
     (kind = ''lib'' \<or> kind = ''rlib'' \<or> kind = ''staticlib'' \<or> kind = ''dylib''
        \<or> kind = ''cstaticlib'')"

definition library_config_name :: "cargo_target \<Rightarrow> string" where
  "library_config_name tgt =
     ''Debug unit tests in library '' @ [CHR 0x27] @ target_name tgt @ [CHR 0x27]"

definition is_library_config :: "cargo_target \<Rightarrow> DebugConfiguration \<Rightarrow> bool" where
  "is_library_config tgt c = (config_name c = library_config_name tgt)"

definition no_metadata_msg :: string where
  "no_metadata_msg = ''Cargo has produced no metadata''"

text \<open>
  \<open>getLaunchConfigs\<close>. The callbacks given to \<open>runCargo\<close> act on the variable \<open>metadata\<close>
  (initially \<open>null\<close>) and on the text appended to the output channel, which is returned
  with the result.
\<close>

definition getLaunchConfigs ::
  "(string list \<Rightarrow> string \<Rightarrow> cargo_process) \<Rightarrow> (string \<Rightarrow> string + cargo_metadata) \<Rightarrow> string
     \<Rightarrow> string option \<Rightarrow> string list \<times> (js_error + DebugConfiguration list)" where
  "getLaunchConfigs spawn parse wsPath directory =
     (let r = runCargo spawn parse wsPath
                [''metadata'', ''--no-deps'', ''--format-version=1'']
                directory
                (\<lambda>m st. (Some m, snd st))
                (\<lambda>stderr st. (fst st, snd st @ [stderr]))
                (None, []);
          metadata = fst (fst r);
          out = snd (fst r)
      in (case snd (snd r) of
            Inl e \<Rightarrow>
              if error_code e = Some ''ENOENT'' then (out, Inr DEFAULT_LAUNCH_CONFIGS)
              else (out, Inl e)
          | Inr exitCode \<Rightarrow>
              if exitCode \<noteq> Some 0 then (out, Inr DEFAULT_LAUNCH_CONFIGS)
              else
                (case metadata of
                   None \<Rightarrow> (out, Inl (Error no_metadata_msg))
                 | Some md \<Rightarrow> (out, Inr (fold (package_step directory) (packages md) [])))))"

subsection \<open>\<open>getProgramFromCargoConfig\<close>\<close>

text \<open>
  Arrays are objects: \<open>cargoArgs\<close> and \<open>taskDef.args\<close> can name the same array, and
  \<open>splice\<close> changes it in place. The arrays of arguments therefore live in a store, and a
  task definition holds the address of its \<open>args\<close>, or nothing when the member is absent.
\<close>

type_synonym addr = nat

record store =
  cells :: "addr \<Rightarrow> string list"
  next_free :: addr

record task_definition =
  task_args :: "addr option"
  task_cwd :: "string option"

text \<open>Evaluating the array literal \<open>[]\<close>: a new, empty array.\<close>

definition new_array :: "store \<Rightarrow> addr \<times> store" where
  "new_array h = (next_free h, h\<lparr>cells := (cells h)(next_free h := []), next_free := next_free h + 1\<rparr>)"

text \<open>
  The first statements of \<open>open\<close>: \<open>cargoArgs\<close> is \<open>taskDef.args || []\<close>, the two flags are
  spliced into that array, and the announcement is written to the terminal. The result is
  the store afterwards and the announcement.
\<close>

definition insert_flags :: "store \<Rightarrow> task_definition \<Rightarrow> store \<times> string" where
  "insert_flags h taskDef =
     (let ah = (case task_args taskDef of
                  Some a \<Rightarrow> (a, h)
                | None \<Rightarrow> new_array h);
          cargoArgs = fst ah;
          h1 = snd ah;
          pos = indexOf (cells h1 cargoArgs) ''--'';
          h2 = h1\<lparr>cells := (cells h1)(cargoArgs :=
                  splice_insert (cells h1 cargoArgs)
                    (if pos \<ge> 0 then nat pos else length (cells h1 cargoArgs))
                    [''--message-format=json'', ''--color=always''])\<rparr>
      in (h2, ''Running `cargo '' @ join (cells h2 cargoArgs) '' '' @ ''`...'' @ [CHR 0x0D, CHR 0x0A]))"

text \<open>
  The value of the expression \<open>taskDef.args\<close> given to \<open>getCargoArtifacts\<close>, as the
  process receives it: \<open>cp.spawn\<close> takes an absent argument list as the empty one.
\<close>

definition spawned_args :: "store \<Rightarrow> task_definition \<Rightarrow> string list" where
  "spawned_args h taskDef = (case task_args taskDef of Some a \<Rightarrow> cells h a | None \<Rightarrow> [])"

text \<open>
  The specification's wording of the insertion: the two flags stand immediately before
  the first \<open>--\<close> when there is one, and at the end otherwise.
\<close>

definition spec_with_flags :: "string list \<Rightarrow> string list" where
  "spec_with_flags xs =
     (if ''--'' \<in> set xs then
        takeWhile (\<lambda>x. x \<noteq> ''--'') xs @ [''--message-format=json'', ''--color=always'']
          @ dropWhile (\<lambda>x. x \<noteq> ''--'') xs
      else xs @ [''--message-format=json'', ''--color=always''])"

text \<open>\<open>message.replace(/\n/g, '\r\n')\<close>.\<close>

definition replace_newline :: "string \<Rightarrow> string" where
  "replace_newline s = concat (map (\<lambda>c. if c = CHR 0x0A then [CHR 0x0D, CHR 0x0A] else [c]) s)"

text \<open>
  What \<open>open\<close> leaves behind: the store, the text written to the terminal, the lines
  appended to the output channel, the console lines, the variable \<open>artifacts\<close> and the
  code fired on \<open>doneEmitter\<close>.
\<close>

record open_result =
  store_after :: store
  terminal :: "string list"
  channel :: "string list"
  console :: "string list"
  artifacts_var :: "js_error + CompilationArtifact list"
  done_code :: int

text \<open>The method \<open>open\<close> of the pseudoterminal; \<open>formatError\<close> is a parameter.\<close>

definition open_pty ::
  "(string list \<Rightarrow> string \<Rightarrow> cargo_process) \<Rightarrow> (string \<Rightarrow> string + cargo_message) \<Rightarrow> string
     \<Rightarrow> (js_error \<Rightarrow> string) \<Rightarrow> store \<Rightarrow> task_definition \<Rightarrow> open_result" where
  "open_pty spawn parse wsPath formatError h taskDef =
     (let hm = insert_flags h taskDef;
          r = getCargoArtifacts spawn parse wsPath
                (spawned_args (fst hm) taskDef)
                (task_cwd taskDef)
                (\<lambda>message out. out @ [replace_newline message])
                [snd hm]
      in (case snd (snd r) of
            Inr arts \<Rightarrow>
              \<lparr>store_after = fst hm, terminal = fst r, channel = [],
               console = fst (snd r), artifacts_var = Inr arts, done_code = 0\<rparr>
          | Inl err \<Rightarrow>
              \<lparr>store_after = fst hm,
               terminal = fst r @ [replace_newline (formatError err)],
               channel = [formatError err],
               console = fst (snd r), artifacts_var = Inl err, done_code = 1\<rparr>))"

definition task_failed_msg :: string where
  "task_failed_msg = ''Cargo task failed.''"

text \<open>
  The configuration given by the caller, with the members that the code reads or writes:
  \<open>command\<close>, \<open>args\<close>, \<open>cwd\<close> and \<open>filter\<close>. As in a task definition, \<open>args\<close> is
  the address of an array, or nothing.
\<close>

record cargo_config =
  config_command :: string
  config_args :: "addr option"
  config_cwd :: "string option"
  config_filter :: "artifact_filter option"

text \<open>
  Between \<open>tasks.executeTask\<close> and the callback of the \<open>CustomExecution\<close> stands the
  host, which is not code of this file. By the contract of \<open>CustomExecution\<close> the callback
  receives the resolved task definition: an object that the host builds from the definition
  of the task, with the variables in its strings resolved. So the array \<open>taskDef.args\<close> is
  a new array holding the resolved arguments, and the array of the configuration is not
  reachable from the callback. \<open>resolveVar\<close> stands for the host's resolution of the
  variables in one string.
\<close>

definition host_resolve ::
  "(string \<Rightarrow> string) \<Rightarrow> store \<Rightarrow> cargo_config \<Rightarrow> task_definition \<times> store" where
  "host_resolve resolveVar h cargoConfig =
     (case config_args cargoConfig of
        None \<Rightarrow>
          (\<lparr>task_args = None, task_cwd = map_option resolveVar (config_cwd cargoConfig)\<rparr>, h)
      | Some b \<Rightarrow>
          (let ah = new_array h
           in (\<lparr>task_args = Some (fst ah),
                task_cwd = map_option resolveVar (config_cwd cargoConfig)\<rparr>,
               (snd ah)\<lparr>cells := (cells (snd ah))(fst ah := map resolveVar (cells h b))\<rparr>)))"

text \<open>
  \<open>getProgramFromCargoConfig\<close>: the command of the configuration is overwritten, the
  task is executed, which has the host resolve its definition and run \<open>open\<close>, and after
  the end of the task the artifacts are resolved with the filter of the configuration. The
  result is the configuration afterwards, what \<open>open\<close> left behind, the lines appended to
  the output channel by \<open>getProgramFromArtifacts\<close>, and the program or the thrown error.
\<close>

definition getProgramFromCargoConfig ::
  "(string list \<Rightarrow> string \<Rightarrow> cargo_process) \<Rightarrow> (string \<Rightarrow> string + cargo_message) \<Rightarrow> string
     \<Rightarrow> (js_error \<Rightarrow> string) \<Rightarrow> (CompilationArtifact \<Rightarrow> string) \<Rightarrow> (string \<Rightarrow> string)
     \<Rightarrow> store \<Rightarrow> cargo_config
     \<Rightarrow> cargo_config \<times> open_result \<times> string list \<times> (js_error + string)" where
  "getProgramFromCargoConfig spawn parse wsPath formatError inspect resolveVar h cargoConfig =
     (let cargoConfig' = cargoConfig\<lparr>config_command := ''dummy''\<rparr>;
          th = host_resolve resolveVar h cargoConfig';
          r = open_pty spawn parse wsPath formatError (snd th) (fst th)
      in (case artifacts_var r of
            Inl err \<Rightarrow> (cargoConfig', r, [], Inl (ErrorWithCause task_failed_msg err))
          | Inr arts \<Rightarrow>
              (cargoConfig', r, getProgramFromArtifacts inspect arts (config_filter cargoConfig'))))"

section \<open>Properties\<close>

subsection \<open>Resolving the program from the artifacts\<close>

lemma filter_pred_spec_keeps: "filter_pred f a = spec_keeps (Some f) a"
  by (auto simp: filter_pred_def spec_keeps_def split: option.splits)

lemma spec_keeps_None: "filter (spec_keeps None) xs = xs"
  by (simp add: spec_keeps_def)

lemma filter_code_spec:
  "(case flt of None \<Rightarrow> artifacts | Some f \<Rightarrow> filter (filter_pred f) artifacts)
     = filter (spec_keeps flt) artifacts"
proof (cases flt)
  case None
  then show ?thesis by (simp add: spec_keeps_None)
next
  case (Some f)
  have "filter (filter_pred f) artifacts = filter (spec_keeps (Some f)) artifacts"
    by (rule filter_cong) (simp_all add: filter_pred_spec_keeps)
  with Some show ?thesis by simp
qed

lemma exactly_one_cases:
  "(if length ys = 0 then A else if length ys > 1 then B else C (ys ! 0)) =
     (case ys of [] \<Rightarrow> A | [a] \<Rightarrow> C a | a # b # rest \<Rightarrow> B)"
  by (cases ys; cases "tl ys") auto

text \<open>
  Claim C1. For every list of artifacts and every optional filter, the artifacts that
  survive are exactly those that the specification's filter keeps (each field of the
  filter that is set equals the artifact's field; no filter keeps all). The result is
  the file name of the only survivor; with no survivor the function throws the
  no-match error, with two or more the ambiguous-match error.
\<close>

theorem getProgramFromArtifacts_resolves:
  "snd (getProgramFromArtifacts inspect artifacts flt) =
     (case filter (spec_keeps flt) artifacts of
        [] \<Rightarrow> Inl (Error no_matching_msg)
      | [a] \<Rightarrow> Inr (fileName a)
      | a # b # rest \<Rightarrow> Inl (Error more_than_one_msg))"
proof -
  have "snd (getProgramFromArtifacts inspect artifacts flt) =
      (if length (filter (spec_keeps flt) artifacts) = 0 then Inl (Error no_matching_msg)
       else if length (filter (spec_keeps flt) artifacts) > 1 then Inl (Error more_than_one_msg)
       else Inr (fileName (filter (spec_keeps flt) artifacts ! 0)))"
    unfolding getProgramFromArtifacts_def Let_def filter_code_spec by simp
  also have "\<dots> = (case filter (spec_keeps flt) artifacts of
        [] \<Rightarrow> Inl (Error no_matching_msg)
      | [a] \<Rightarrow> Inr (fileName a)
      | a # b # rest \<Rightarrow> Inl (Error more_than_one_msg))"
    by (rule exactly_one_cases [where C = "\<lambda>a. Inr (fileName a)"])
  finally show ?thesis .
qed

theorem getProgramFromArtifacts_resolves_witness:
  "snd (getProgramFromArtifacts (\<lambda>a. fileName a)
          [\<lparr>fileName = ''/p/demo'', artifact_name = ''demo'', artifact_kind = Some ''bin''\<rparr>,
           \<lparr>fileName = ''/p/demo_tests'', artifact_name = ''demo_tests'', artifact_kind = Some ''test''\<rparr>]
          (Some \<lparr>filter_name = Some ''demo'', filter_kind = None\<rparr>)) = Inr ''/p/demo''"
  using getProgramFromArtifacts_resolves [of "\<lambda>a. fileName a"
          "[\<lparr>fileName = ''/p/demo'', artifact_name = ''demo'', artifact_kind = Some ''bin''\<rparr>,
           \<lparr>fileName = ''/p/demo_tests'', artifact_name = ''demo_tests'', artifact_kind = Some ''test''\<rparr>]"
          "Some \<lparr>filter_name = Some ''demo'', filter_kind = None\<rparr>"]
  by (simp add: spec_keeps_def)

subsection \<open>Collecting artifacts from the messages\<close>

lemma older_cargo_fold:
  "fold (older_cargo_step m) ixs arts =
     arts @ map (\<lambda>i. \<lparr>fileName = filenames m ! i,
                       artifact_name = target_name (target m),
                       artifact_kind = at_index (target_kind (target m)) i\<rparr>)
              (filter (\<lambda>i. \<not> endsWith (filenames m ! i) ''.dSYM'') ixs)"
  by (induction ixs arbitrary: arts) (simp_all add: older_cargo_step_def)

lemma nth_filter_upt:
  "map (\<lambda>i. xs ! i) (filter (\<lambda>i. P (xs ! i)) [0 ..< length xs]) = filter P xs"
proof -
  have "filter P xs = filter P (map (\<lambda>i. xs ! i) [0 ..< length xs])"
    by (simp add: map_nth)
  also have "\<dots> = map (\<lambda>i. xs ! i) (filter (\<lambda>i. P (xs ! i)) [0 ..< length xs])"
    by (simp add: filter_map comp_def)
  finally show ?thesis by simp
qed

lemma on_cargo_message_artifacts:
  "fst (on_cargo_message onMessage m st) =
     (if reason m = ''compiler-artifact'' \<and> collection_condition m then
        (case executable m of
           Value exe \<Rightarrow> fst st @ [\<lparr>fileName = exe,
                                  artifact_name = target_name (target m),
                                  artifact_kind = at_index (target_kind (target m)) 0\<rparr>]
         | Null \<Rightarrow> fst st
         | Undefined \<Rightarrow> older_cargo_loop m (fst st))
      else fst st)"
  by (simp add: on_cargo_message_def collection_condition_def Let_def split: js_field.splits)

text \<open>
  Claim C2, as amended. The callback only appends to the artifacts. A parsed message
  contributes an artifact if and only if its reason is \<open>compiler-artifact\<close>, the list
  \<open>crate_types\<close> of its target contains \<open>bin\<close> while the kind list of its target does
  not contain \<open>custom-build\<close>, or its profile is a test profile, and the message names an
  output file: an executable path that is not null, or, in the older schema, a file name
  that does not end in \<open>.dSYM\<close>. A message with any other reason contributes nothing.
\<close>

theorem artifact_collected_iff:
  "fst (on_cargo_message onMessage m (arts, s)) = arts @ fst (on_cargo_message onMessage m ([], s))
   \<and> (fst (on_cargo_message onMessage m ([], s)) \<noteq> [] \<longleftrightarrow>
        reason m = ''compiler-artifact''
        \<and> ((''bin'' \<in> set (crate_types (target m)) \<and> ''custom-build'' \<notin> set (target_kind (target m)))
            \<or> profile_test m)
        \<and> (case executable m of
              Value exe \<Rightarrow> True
            | Null \<Rightarrow> False
            | Undefined \<Rightarrow> list_ex (\<lambda>f. \<not> endsWith f ''.dSYM'') (filenames m)))"
proof -
  let ?P = "\<lambda>f. \<not> endsWith f ''.dSYM''"
  have ne: "(filter (\<lambda>i. ?P (filenames m ! i)) [0 ..< length (filenames m)] \<noteq> [])
              = list_ex ?P (filenames m)"
  proof -
    have "(filter ?P (filenames m) \<noteq> []) = list_ex ?P (filenames m)"
      by (simp add: filter_empty_conv list_ex_iff)
    then show ?thesis
      using nth_filter_upt [of "filenames m" ?P] by (metis map_is_Nil_conv)
  qed
  have app: "fst (on_cargo_message onMessage m (arts, s)) =
               arts @ fst (on_cargo_message onMessage m ([], s))"
    by (cases "executable m")
       (simp_all add: on_cargo_message_artifacts older_cargo_loop_def older_cargo_fold)
  have iff: "fst (on_cargo_message onMessage m ([], s)) \<noteq> [] \<longleftrightarrow>
               reason m = ''compiler-artifact'' \<and> collection_condition m
               \<and> (case executable m of
                     Value exe \<Rightarrow> True
                   | Null \<Rightarrow> False
                   | Undefined \<Rightarrow> list_ex ?P (filenames m))"
  proof (cases "reason m = ''compiler-artifact'' \<and> collection_condition m")
    case True
    then show ?thesis
      using ne
      by (cases "executable m")
         (simp_all add: on_cargo_message_artifacts older_cargo_loop_def older_cargo_fold)
  next
    case False
    then show ?thesis
      by (auto simp: on_cargo_message_artifacts)
  qed
  show ?thesis
    using app iff unfolding collection_condition_def by blast
qed

text \<open>
  The claim as stated tests the kind list for \<open>bin\<close>. An example target has the kind
  \<open>example\<close> and the crate type \<open>bin\<close>: its artifact is collected although the stated
  condition is false.
\<close>

theorem artifact_collected_counterexample:
  "fst (on_cargo_message (\<lambda>d s. s)
          \<lparr>reason = ''compiler-artifact'',
           target = \<lparr>target_name = ''demo'', target_kind = [''example''], crate_types = [''bin'']\<rparr>,
           profile_test = False,
           executable = Value ''/p/target/debug/examples/demo'',
           filenames = [],
           rendered = []\<rparr> ([], ()))
     = [\<lparr>fileName = ''/p/target/debug/examples/demo'', artifact_name = ''demo'',
         artifact_kind = Some ''example''\<rparr>]
   \<and> \<not> spec_collection_condition
          \<lparr>reason = ''compiler-artifact'',
           target = \<lparr>target_name = ''demo'', target_kind = [''example''], crate_types = [''bin'']\<rparr>,
           profile_test = False,
           executable = Value ''/p/target/debug/examples/demo'',
           filenames = [],
           rendered = []\<rparr>"
  by (simp add: on_cargo_message_def spec_collection_condition_def at_index_def)

theorem artifact_collected_iff_witness:
  "fst (on_cargo_message (\<lambda>d s. s)
          \<lparr>reason = ''compiler-artifact'',
           target = \<lparr>target_name = ''foo'', target_kind = [''bin''], crate_types = [''bin'']\<rparr>,
           profile_test = False,
           executable = Value ''/p/target/debug/foo'',
           filenames = [],
           rendered = []\<rparr> ([], ())) \<noteq> []"
  using artifact_collected_iff [of "\<lambda>d s. s"
          "\<lparr>reason = ''compiler-artifact'',
           target = \<lparr>target_name = ''foo'', target_kind = [''bin''], crate_types = [''bin'']\<rparr>,
           profile_test = False,
           executable = Value ''/p/target/debug/foo'',
           filenames = [],
           rendered = []\<rparr>" "[]" "()"]
  by simp

text \<open>
  Claim C5. For a message of the older schema that passes the condition, the artifacts
  appended are, in order, one for each index of \<open>filenames\<close> whose entry does not end
  in \<open>.dSYM\<close>, with the kind at the same index of the kind list; so the file names
  appended are exactly the entries not ending in \<open>.dSYM\<close>, and no appended artifact
  has a file name ending in \<open>.dSYM\<close>.
\<close>

theorem older_cargo_artifacts:
  assumes "reason m = ''compiler-artifact''"
    and "collection_condition m"
    and "executable m = Undefined"
  shows "fst (on_cargo_message onMessage m (arts, s)) =
           arts @ map (\<lambda>i. \<lparr>fileName = filenames m ! i,
                             artifact_name = target_name (target m),
                             artifact_kind = at_index (target_kind (target m)) i\<rparr>)
                    (filter (\<lambda>i. \<not> endsWith (filenames m ! i) ''.dSYM'')
                       [0 ..< length (filenames m)])
         \<and> map fileName (fst (on_cargo_message onMessage m ([], s))) =
             filter (\<lambda>f. \<not> endsWith f ''.dSYM'') (filenames m)
         \<and> list_all (\<lambda>a. \<not> endsWith (fileName a) ''.dSYM'')
             (fst (on_cargo_message onMessage m (arts, s))) =
           list_all (\<lambda>a. \<not> endsWith (fileName a) ''.dSYM'') arts"
proof -
  let ?P = "\<lambda>f. \<not> endsWith f ''.dSYM''"
  let ?mk = "\<lambda>i. \<lparr>fileName = filenames m ! i,
                   artifact_name = target_name (target m),
                   artifact_kind = at_index (target_kind (target m)) i\<rparr>"
  let ?ixs = "filter (\<lambda>i. ?P (filenames m ! i)) [0 ..< length (filenames m)]"
  have run: "fst (on_cargo_message onMessage m (as, s)) = as @ map ?mk ?ixs" for as
    using assms by (simp add: on_cargo_message_artifacts older_cargo_loop_def older_cargo_fold)
  have names: "map fileName (map ?mk ?ixs) = filter ?P (filenames m)"
    using nth_filter_upt [of "filenames m" ?P] by (simp add: comp_def)
  have "list_all (\<lambda>a. ?P (fileName a)) (map ?mk ?ixs)"
    by (simp add: list_all_iff)
  then show ?thesis
    using run names by simp
qed

theorem older_cargo_artifacts_witness:
  "fst (on_cargo_message (\<lambda>d s. s)
          \<lparr>reason = ''compiler-artifact'',
           target = \<lparr>target_name = ''foo'', target_kind = [''bin''], crate_types = [''bin'']\<rparr>,
           profile_test = False,
           executable = Undefined,
           filenames = [''/p/target/debug/foo'', ''/p/target/debug/foo.dSYM''],
           rendered = []\<rparr> ([], ()))
     = [\<lparr>fileName = ''/p/target/debug/foo'', artifact_name = ''foo'',
         artifact_kind = Some ''bin''\<rparr>]"
  using older_cargo_artifacts [of
          "\<lparr>reason = ''compiler-artifact'',
           target = \<lparr>target_name = ''foo'', target_kind = [''bin''], crate_types = [''bin'']\<rparr>,
           profile_test = False,
           executable = Undefined,
           filenames = [''/p/target/debug/foo'', ''/p/target/debug/foo.dSYM''],
           rendered = []\<rparr>" "\<lambda>d s. s" "[]" "()"]
  by (simp add: collection_condition_def endsWith_def at_index_def)

subsection \<open>Reading the standard output of the process\<close>

lemma on_event_console:
  "on_event parse f g e (s, c) =
     (fst (on_event parse f g e (s, [])), c @ snd (on_event parse f g e (s, [])))"
  by (cases e) (simp_all add: on_line_def on_stderr_data_def split: sum.splits)

lemma fold_on_event_console:
  "fold (on_event parse f g) evs (s, c) =
     (fst (fold (on_event parse f g) evs (s, [])),
      c @ snd (fold (on_event parse f g) evs (s, [])))"
proof (induction evs arbitrary: s c)
  case Nil
  show ?case by simp
next
  case (Cons e evs)
  obtain s1 x where step: "on_event parse f g e (s, []) = (s1, x)"
    by (cases "on_event parse f g e (s, [])")
  have step': "on_event parse f g e (s, c) = (s1, c @ x)"
    using on_event_console [of parse f g e s c] step by simp
  show ?case
    using Cons.IH [of s1 "c @ x"] Cons.IH [of s1 x] step step' by simp
qed

lemma plain_line_ignored:
  "\<not> startsWith line ''{'' \<Longrightarrow> on_line parse f line sc = sc"
  by (simp add: on_line_def)

lemma malformed_line_logged:
  "startsWith line ''{'' \<Longrightarrow> parse line = Inl err \<Longrightarrow>
     on_line parse f line sc = (fst sc, snd sc @ [parse_error_msg err line])"
  by (simp add: on_line_def)

text \<open>
  Claim C3, as amended. A line of the standard output that does not begin with the open
  brace is discarded: the line handler calls no callback for it and writes nothing to
  the console, so that \<open>runCargo\<close> and \<open>getCargoArtifacts\<close> behave, in the state of
  their callbacks, in the console and in their result, as if the line had not been
  printed.
\<close>

theorem plain_stdout_line_discarded:
  assumes "\<not> startsWith line ''{''"
  shows "on_line parse onStdoutJson line sc = sc
       \<and> runCargo (\<lambda>a c. \<lparr>events = pre @ StdoutLine line # post, ending = e\<rparr>)
             parse wsPath cargoArgs dir onStdoutJson onStderrString s
         = runCargo (\<lambda>a c. \<lparr>events = pre @ post, ending = e\<rparr>)
             parse wsPath cargoArgs dir onStdoutJson onStderrString s
       \<and> getCargoArtifacts (\<lambda>a c. \<lparr>events = pre @ StdoutLine line # post, ending = e\<rparr>)
             parseMessage wsPath cargoArgs dir onMessage s'
         = getCargoArtifacts (\<lambda>a c. \<lparr>events = pre @ post, ending = e\<rparr>)
             parseMessage wsPath cargoArgs dir onMessage s'"
  using assms by (simp add: getCargoArtifacts_def runCargo_def plain_line_ignored)

text \<open>
  The claim as stated has the line forwarded to the diagnostic callback. With a callback
  that records what it receives, a run printing one plain line records nothing, in
  \<open>runCargo\<close> and in \<open>getCargoArtifacts\<close>.
\<close>

theorem plain_stdout_line_counterexample:
  "\<not> startsWith ''warning: unused manifest key'' ''{''
   \<and> runCargo
       (\<lambda>a c. \<lparr>events = [StdoutLine ''warning: unused manifest key''], ending = Close (Some 0)\<rparr>)
       (\<lambda>line. Inl ''SyntaxError'' :: string + cargo_message) ''/ws'' [''build''] None
       (\<lambda>json st. st) (\<lambda>data st. st @ [data]) []
     = ([], [], Inr (Some 0))
   \<and> getCargoArtifacts
       (\<lambda>a c. \<lparr>events = [StdoutLine ''warning: unused manifest key''], ending = Close (Some 0)\<rparr>)
       (\<lambda>line. Inl ''SyntaxError'') ''/ws'' [''build''] None
       (\<lambda>data st. st @ [data]) []
     = ([], [], Inr [])"
  by (simp add: runCargo_def getCargoArtifacts_def on_line_def startsWith_def)

theorem plain_stdout_line_discarded_witness:
  "\<not> startsWith ''   Compiling demo'' ''{''
   \<and> runCargo
       (\<lambda>a c. \<lparr>events = [StderrChunk ''err''] @ StdoutLine ''   Compiling demo'' # [],
                ending = Close (Some 0)\<rparr>)
       (\<lambda>line. Inl ''SyntaxError'' :: string + cargo_message) ''/ws'' [''build''] None
       (\<lambda>json st. st) (\<lambda>data st. st @ [data]) []
     = ([''err''], [], Inr (Some 0))
   \<and> getCargoArtifacts
       (\<lambda>a c. \<lparr>events = [StderrChunk ''err''] @ StdoutLine ''   Compiling demo'' # [],
                ending = Close (Some 0)\<rparr>)
       (\<lambda>line. Inl ''SyntaxError'') ''/ws'' [''build''] None
       (\<lambda>data st. st @ [data]) []
     = ([''err''], [], Inr [])"
proof -
  have h: "\<not> startsWith ''   Compiling demo'' ''{''"
    by (simp add: startsWith_def)
  show ?thesis
    using h plain_stdout_line_discarded [where line = "''   Compiling demo''"
        and parse = "\<lambda>line. Inl ''SyntaxError'' :: string + cargo_message"
        and onStdoutJson = "\<lambda>json st. st" and sc = "([], [])"
        and pre = "[StderrChunk ''err'']" and post = "[]" and e = "Close (Some 0)"
        and wsPath = "''/ws''" and cargoArgs = "[''build'']" and dir = None
        and onStderrString = "\<lambda>data st. st @ [data]" and s = "[]"
        and parseMessage = "\<lambda>line. Inl ''SyntaxError''"
        and onMessage = "\<lambda>data st. st @ [data]" and s' = "[]", OF h]
    by (simp add: getCargoArtifacts_def runCargo_def on_stderr_data_def)
qed

lemma runCargo_malformed_line:
  assumes "startsWith line ''{''" and "parse line = Inl err"
  shows "fst (runCargo (\<lambda>a c. \<lparr>events = pre @ StdoutLine line # post, ending = e\<rparr>)
                parse wsPath cargoArgs dir onStdoutJson onStderrString st)
         = fst (runCargo (\<lambda>a c. \<lparr>events = pre @ post, ending = e\<rparr>)
                parse wsPath cargoArgs dir onStdoutJson onStderrString st)"
    and "snd (snd (runCargo (\<lambda>a c. \<lparr>events = pre @ StdoutLine line # post, ending = e\<rparr>)
                parse wsPath cargoArgs dir onStdoutJson onStderrString st))
         = snd (snd (runCargo (\<lambda>a c. \<lparr>events = pre @ post, ending = e\<rparr>)
                parse wsPath cargoArgs dir onStdoutJson onStderrString st))"
    and "parse_error_msg err line
           \<in> set (fst (snd (runCargo (\<lambda>a c. \<lparr>events = pre @ StdoutLine line # post, ending = e\<rparr>)
                parse wsPath cargoArgs dir onStdoutJson onStderrString st)))"
proof -
  let ?F = "on_event parse onStdoutJson onStderrString"
  obtain s1 c1 where pre: "fold ?F pre (st, []) = (s1, c1)"
    by (cases "fold ?F pre (st, [])")
  have bad: "on_line parse onStdoutJson line (s1, c1) = (s1, c1 @ [parse_error_msg err line])"
    using assms by (simp add: malformed_line_logged)
  have with_line: "fold ?F (pre @ StdoutLine line # post) (st, []) =
          fold ?F post (s1, c1 @ [parse_error_msg err line])"
    using pre bad by simp
  have without: "fold ?F (pre @ post) (st, []) = fold ?F post (s1, c1)"
    using pre by simp
  have a: "fold ?F post (s1, c1 @ [parse_error_msg err line]) =
          (fst (fold ?F post (s1, [])),
           (c1 @ [parse_error_msg err line]) @ snd (fold ?F post (s1, [])))"
    by (rule fold_on_event_console)
  have b: "fold ?F post (s1, c1) =
          (fst (fold ?F post (s1, [])), c1 @ snd (fold ?F post (s1, [])))"
    by (rule fold_on_event_console)
  show "fst (runCargo (\<lambda>a c. \<lparr>events = pre @ StdoutLine line # post, ending = e\<rparr>)
                parse wsPath cargoArgs dir onStdoutJson onStderrString st)
         = fst (runCargo (\<lambda>a c. \<lparr>events = pre @ post, ending = e\<rparr>)
                parse wsPath cargoArgs dir onStdoutJson onStderrString st)"
    by (simp add: runCargo_def with_line without a b del: fold_append fold_simps)
  show "snd (snd (runCargo (\<lambda>a c. \<lparr>events = pre @ StdoutLine line # post, ending = e\<rparr>)
                parse wsPath cargoArgs dir onStdoutJson onStderrString st))
         = snd (snd (runCargo (\<lambda>a c. \<lparr>events = pre @ post, ending = e\<rparr>)
                parse wsPath cargoArgs dir onStdoutJson onStderrString st))"
    by (simp add: runCargo_def Let_def)
  show "parse_error_msg err line
           \<in> set (fst (snd (runCargo (\<lambda>a c. \<lparr>events = pre @ StdoutLine line # post, ending = e\<rparr>)
                parse wsPath cargoArgs dir onStdoutJson onStderrString st)))"
    by (simp add: runCargo_def with_line a del: fold_append fold_simps)
qed

text \<open>
  Claim C8. A line that begins with the open brace and that \<open>JSON.parse\<close> rejects is
  logged to the console and discarded: the state of the callbacks and the settled promise
  of \<open>runCargo\<close> are those of the run without the line, and so are the state of the
  message sink and the result of \<open>getCargoArtifacts\<close>, whatever precedes and follows the
  line. No error is raised by the line, and the messages after it contribute their
  artifacts.
\<close>

theorem malformed_json_line_recovered:
  assumes "startsWith line ''{''" and "parse line = Inl err"
  shows "on_line parse onStdoutJson line (st, c) = (st, c @ [parse_error_msg err line])
       \<and> fst (runCargo (\<lambda>a c. \<lparr>events = pre @ StdoutLine line # post, ending = e\<rparr>)
                parse wsPath cargoArgs dir onStdoutJson onStderrString st)
         = fst (runCargo (\<lambda>a c. \<lparr>events = pre @ post, ending = e\<rparr>)
                parse wsPath cargoArgs dir onStdoutJson onStderrString st)
       \<and> snd (snd (runCargo (\<lambda>a c. \<lparr>events = pre @ StdoutLine line # post, ending = e\<rparr>)
                parse wsPath cargoArgs dir onStdoutJson onStderrString st))
         = snd (snd (runCargo (\<lambda>a c. \<lparr>events = pre @ post, ending = e\<rparr>)
                parse wsPath cargoArgs dir onStdoutJson onStderrString st))
       \<and> parse_error_msg err line
           \<in> set (fst (snd (runCargo (\<lambda>a c. \<lparr>events = pre @ StdoutLine line # post, ending = e\<rparr>)
                parse wsPath cargoArgs dir onStdoutJson onStderrString st)))
       \<and> fst (getCargoArtifacts (\<lambda>a c. \<lparr>events = pre @ StdoutLine line # post, ending = e\<rparr>)
                parse wsPath cargoArgs dir onMessage s)
         = fst (getCargoArtifacts (\<lambda>a c. \<lparr>events = pre @ post, ending = e\<rparr>)
                parse wsPath cargoArgs dir onMessage s)
       \<and> snd (snd (getCargoArtifacts (\<lambda>a c. \<lparr>events = pre @ StdoutLine line # post, ending = e\<rparr>)
                parse wsPath cargoArgs dir onMessage s))
         = snd (snd (getCargoArtifacts (\<lambda>a c. \<lparr>events = pre @ post, ending = e\<rparr>)
                parse wsPath cargoArgs dir onMessage s))"
proof -
  have step: "on_line parse onStdoutJson line (st, c) = (st, c @ [parse_error_msg err line])"
    using assms by (simp add: malformed_line_logged)
  note rc = runCargo_malformed_line [where line = line and parse = parse and err = err, OF assms]
  have arts: "fst (getCargoArtifacts (\<lambda>a c. \<lparr>events = pre @ StdoutLine line # post, ending = e\<rparr>)
                parse wsPath cargoArgs dir onMessage s)
         = fst (getCargoArtifacts (\<lambda>a c. \<lparr>events = pre @ post, ending = e\<rparr>)
                parse wsPath cargoArgs dir onMessage s)"
    unfolding getCargoArtifacts_def Let_def
    by (simp add: rc(1))
  have res: "snd (snd (getCargoArtifacts (\<lambda>a c. \<lparr>events = pre @ StdoutLine line # post, ending = e\<rparr>)
                parse wsPath cargoArgs dir onMessage s))
         = snd (snd (getCargoArtifacts (\<lambda>a c. \<lparr>events = pre @ post, ending = e\<rparr>)
                parse wsPath cargoArgs dir onMessage s))"
    unfolding getCargoArtifacts_def Let_def
    by (simp add: rc(1,2) split: sum.splits)
  show ?thesis
    by (intro conjI) (rule step rc(1) rc(2) rc(3) arts res)+
qed

theorem malformed_json_line_recovered_witness:
  "startsWith ''{broken'' ''{''
   \<and> snd (snd (getCargoArtifacts
        (\<lambda>a c. \<lparr>events = [] @ StdoutLine ''{broken'' # [StdoutLine ''{good}''],
                 ending = Close (Some 0)\<rparr>)
        (\<lambda>line. if line = ''{good}'' then
                   Inr \<lparr>reason = ''compiler-artifact'',
                        target = \<lparr>target_name = ''foo'', target_kind = [''bin''],
                                  crate_types = [''bin'']\<rparr>,
                        profile_test = False,
                        executable = Value ''/p/target/debug/foo'',
                        filenames = [],
                        rendered = []\<rparr>
                 else Inl ''SyntaxError'')
        ''/ws'' [''build''] None (\<lambda>data st. st @ [data]) []))
     = Inr [\<lparr>fileName = ''/p/target/debug/foo'', artifact_name = ''foo'',
             artifact_kind = Some ''bin''\<rparr>]"
proof -
  let ?parse = "\<lambda>line. if line = ''{good}'' then
                   Inr \<lparr>reason = ''compiler-artifact'',
                        target = \<lparr>target_name = ''foo'', target_kind = [''bin''],
                                  crate_types = [''bin'']\<rparr>,
                        profile_test = False,
                        executable = Value ''/p/target/debug/foo'',
                        filenames = [],
                        rendered = []\<rparr>
                 else Inl ''SyntaxError''"
  have h1: "startsWith ''{broken'' ''{''"
    by (simp add: startsWith_def)
  have h2: "?parse ''{broken'' = Inl ''SyntaxError''"
    by simp
  show ?thesis
    using h1 malformed_json_line_recovered [where line = "''{broken''" and parse = ?parse
        and err = "''SyntaxError''" and onStdoutJson = "\<lambda>j st. st" and st = "()" and c = "[]"
        and pre = "[]" and post = "[StdoutLine ''{good}'']" and e = "Close (Some 0)"
        and wsPath = "''/ws''" and cargoArgs = "[''build'']" and dir = None
        and onStderrString = "\<lambda>d st. st" and onMessage = "\<lambda>data st. st @ [data]"
        and s = "[]", OF h1 h2]
    by (simp add: getCargoArtifacts_def runCargo_def on_line_def on_cargo_message_def
          startsWith_def at_index_def)
qed

subsection \<open>Launch configurations\<close>

lemma metadata_untouched:
  "\<not> list_ex (delivers_payload parse) evs \<Longrightarrow>
     fst (fst (fold (on_event parse (\<lambda>m st. (Some m, snd st)) g) evs ((md, out), c))) = md"
  if "\<And>chunk st. fst (g chunk st) = fst st"
  using that
proof (induction evs arbitrary: md out c)
  case Nil
  show ?case by simp
next
  case (Cons e evs)
  obtain md' out' c' where step:
    "on_event parse (\<lambda>m st. (Some m, snd st)) g e ((md, out), c) = ((md', out'), c')"
    by (metis surj_pair)
  have "md' = md"
  proof (cases e)
    case (StdoutLine line)
    with Cons.prems step show ?thesis
      by (auto simp: on_line_def delivers_payload_def split: if_splits sum.splits)
  next
    case (StderrChunk chunk)
    with Cons.prems(2) [of chunk "(md, out)"] step show ?thesis
      by (auto simp: on_stderr_data_def)
  qed
  with Cons step show ?case by simp
qed

text \<open>
  Claim C4. Whatever the process prints: when spawning fails with the code \<open>ENOENT\<close>,
  and when the process closes with an exit code other than zero, \<open>getLaunchConfigs\<close>
  returns the built-in default configurations, a list of one; when the process closes
  with exit code zero and no line of its output handed a parsed payload to the callback,
  it throws the error that no metadata was produced.
\<close>

theorem getLaunchConfigs_fallback:
  "(ending p = Failed e \<and> error_code e = Some ''ENOENT'' \<longrightarrow>
      snd (getLaunchConfigs (\<lambda>a c. p) parse wsPath directory) = Inr DEFAULT_LAUNCH_CONFIGS)
   \<and> (ending p = Close exitCode \<and> exitCode \<noteq> Some 0 \<longrightarrow>
      snd (getLaunchConfigs (\<lambda>a c. p) parse wsPath directory) = Inr DEFAULT_LAUNCH_CONFIGS)
   \<and> (ending p = Close (Some 0) \<and> \<not> list_ex (delivers_payload parse) (events p) \<longrightarrow>
      snd (getLaunchConfigs (\<lambda>a c. p) parse wsPath directory) = Inl (Error no_metadata_msg))
   \<and> length DEFAULT_LAUNCH_CONFIGS = 1"
proof -
  have a: "ending p = Failed e \<Longrightarrow> error_code e = Some ''ENOENT'' \<Longrightarrow>
      snd (getLaunchConfigs (\<lambda>a c. p) parse wsPath directory) = Inr DEFAULT_LAUNCH_CONFIGS"
    by (simp add: getLaunchConfigs_def runCargo_def Let_def)
  have b: "ending p = Close exitCode \<Longrightarrow> exitCode \<noteq> Some 0 \<Longrightarrow>
      snd (getLaunchConfigs (\<lambda>a c. p) parse wsPath directory) = Inr DEFAULT_LAUNCH_CONFIGS"
    by (simp add: getLaunchConfigs_def runCargo_def Let_def)
  have c: "snd (getLaunchConfigs (\<lambda>a c. p) parse wsPath directory) = Inl (Error no_metadata_msg)"
    if "ending p = Close (Some 0)" and "\<not> list_ex (delivers_payload parse) (events p)"
  proof -
    have "fst (fst (fold (on_event parse (\<lambda>m st. (Some m, snd st))
                  (\<lambda>stderr st. (fst st, snd st @ [stderr]))) (events p) ((None, []), []))) = None"
      using that(2) by (intro metadata_untouched) simp_all
    with that(1) show ?thesis
      by (simp add: getLaunchConfigs_def runCargo_def Let_def)
  qed
  have d: "length DEFAULT_LAUNCH_CONFIGS = 1"
    by (simp add: DEFAULT_LAUNCH_CONFIGS_def)
  from a b c d show ?thesis by blast
qed

theorem getLaunchConfigs_fallback_witness:
  "snd (getLaunchConfigs (\<lambda>a c. \<lparr>events = [], ending = Failed (SpawnError ''ENOENT'')\<rparr>)
          (\<lambda>line. Inl ''SyntaxError'') ''/ws'' None) = Inr DEFAULT_LAUNCH_CONFIGS
   \<and> snd (getLaunchConfigs
          (\<lambda>a c. \<lparr>events = [StderrChunk ''error: could not find Cargo.toml''],
                   ending = Close (Some 101)\<rparr>)
          (\<lambda>line. Inl ''SyntaxError'') ''/ws'' None) = Inr DEFAULT_LAUNCH_CONFIGS
   \<and> snd (getLaunchConfigs
          (\<lambda>a c. \<lparr>events = [StdoutLine ''no json here''], ending = Close (Some 0)\<rparr>)
          (\<lambda>line. Inl ''SyntaxError'') ''/ws'' None) = Inl (Error no_metadata_msg)"
  using getLaunchConfigs_fallback [of "\<lparr>events = [], ending = Failed (SpawnError ''ENOENT'')\<rparr>"
          "SpawnError ''ENOENT''" "\<lambda>line. Inl ''SyntaxError''" "''/ws''" None "None"]
        getLaunchConfigs_fallback [of
          "\<lparr>events = [StderrChunk ''error: could not find Cargo.toml''],
            ending = Close (Some 101)\<rparr>"
          "SpawnError ''ENOENT''" "\<lambda>line. Inl ''SyntaxError''" "''/ws''" None "Some 101"]
        getLaunchConfigs_fallback [of
          "\<lparr>events = [StdoutLine ''no json here''], ending = Close (Some 0)\<rparr>"
          "SpawnError ''ENOENT''" "\<lambda>line. Inl ''SyntaxError''" "''/ws''" None "Some 0"]
  by (simp add: delivers_payload_def startsWith_def)

lemma kind_step_acc:
  "kind_step pkg dir tgt k (b, cs) =
     (fst (kind_step pkg dir tgt k (b, [])), cs @ snd (kind_step pkg dir tgt k (b, [])))"
  by (simp add: kind_step_def addConfig_def Let_def)

lemma fold_kind_step_acc:
  "fold (kind_step pkg dir tgt) ks (b, cs) =
     (fst (fold (kind_step pkg dir tgt) ks (b, [])),
      cs @ snd (fold (kind_step pkg dir tgt) ks (b, [])))"
proof (induction ks arbitrary: b cs)
  case Nil
  show ?case by simp
next
  case (Cons k ks)
  obtain b1 x where step: "kind_step pkg dir tgt k (b, []) = (b1, x)"
    by (cases "kind_step pkg dir tgt k (b, [])")
  have step': "kind_step pkg dir tgt k (b, cs) = (b1, cs @ x)"
    using kind_step_acc [of pkg dir tgt k b cs] step by simp
  show ?case
    using Cons.IH [of b1 "cs @ x"] Cons.IH [of b1 x] step step' by simp
qed

text \<open>The configuration added for the library kinds.\<close>

lemma kind_step_library:
  "is_library_kind k \<Longrightarrow>
     kind_step pkg dir tgt k (False, cs) =
       (True, addConfig pkg dir (library_config_name tgt) [''test'', ''--no-run'', ''--lib'']
                \<lparr>filter_name = Some (target_name tgt), filter_kind = Some ''lib''\<rparr> cs)"
  by (simp add: kind_step_def is_library_kind_def library_config_name_def)

lemma kind_step_library_added:
  "is_library_kind k \<Longrightarrow> kind_step pkg dir tgt k (True, cs) = (True, cs)"
  by (simp add: kind_step_def is_library_kind_def)

lemma kind_step_flag:
  "fst (kind_step pkg dir tgt k (b, cs)) = (b \<or> is_library_kind k)"
  by (auto simp: kind_step_def is_library_kind_def Let_def)

lemma kind_step_other_names:
  "\<not> is_library_kind k \<Longrightarrow>
     filter (is_library_config tgt) (snd (kind_step pkg dir tgt k (b, cs))) =
     filter (is_library_config tgt) cs"
  by (auto simp: kind_step_def is_library_kind_def is_library_config_def library_config_name_def
        addConfig_def Let_def)

lemma addConfig_library_name:
  "filter (is_library_config tgt) (addConfig pkg dir (library_config_name tgt) as flt cs) =
     filter (is_library_config tgt) cs @ addConfig pkg dir (library_config_name tgt) as flt []"
  by (simp add: addConfig_def is_library_config_def)

lemma fold_added_no_library:
  "filter (is_library_config tgt) (snd (fold (kind_step pkg dir tgt) ks (True, cs))) =
     filter (is_library_config tgt) cs"
proof (induction ks arbitrary: cs)
  case Nil
  show ?case by simp
next
  case (Cons k ks)
  obtain cs1 where step: "kind_step pkg dir tgt k (True, cs) = (True, cs1)"
    using kind_step_flag [of pkg dir tgt k True cs]
    by (cases "kind_step pkg dir tgt k (True, cs)") simp
  have "filter (is_library_config tgt) cs1 = filter (is_library_config tgt) cs"
  proof (cases "is_library_kind k")
    case True
    with step show ?thesis by (simp add: kind_step_library_added)
  next
    case False
    from kind_step_other_names [OF False, of tgt pkg dir True cs] step show ?thesis by simp
  qed
  with Cons.IH [of cs1] step show ?case by simp
qed

lemma fold_no_library_kind:
  "\<not> list_ex is_library_kind ks \<Longrightarrow>
     fst (fold (kind_step pkg dir tgt) ks (b, cs)) = b
     \<and> filter (is_library_config tgt) (snd (fold (kind_step pkg dir tgt) ks (b, cs))) =
         filter (is_library_config tgt) cs"
proof (induction ks arbitrary: cs)
  case Nil
  show ?case by simp
next
  case (Cons k ks)
  then have k: "\<not> is_library_kind k" and ks: "\<not> list_ex is_library_kind ks"
    by simp_all
  obtain cs1 where step: "kind_step pkg dir tgt k (b, cs) = (b, cs1)"
    using kind_step_flag [of pkg dir tgt k b cs] k
    by (cases "kind_step pkg dir tgt k (b, cs)") simp
  have "filter (is_library_config tgt) cs1 = filter (is_library_config tgt) cs"
    using kind_step_other_names [OF k, of tgt pkg dir b cs] step by simp
  with Cons.IH [OF ks, of cs1] step show ?case by simp
qed

lemma kind_step_target_kind:
  "kind_step pkg dir (tgt\<lparr>target_kind := ks\<rparr>) = kind_step pkg dir tgt"
  by (rule ext, rule ext) (simp add: kind_step_def)

text \<open>The run of the loop over a kind list whose first library kind is \<open>k\<close>.\<close>

lemma target_step_first_library:
  assumes "target_kind tgt = pre @ k # post"
    and "is_library_kind k"
    and "\<not> list_ex is_library_kind pre"
  shows "target_step pkg dir tgt [] =
           addConfig pkg dir (library_config_name tgt) [''test'', ''--no-run'', ''--lib'']
             \<lparr>filter_name = Some (target_name tgt), filter_kind = Some ''lib''\<rparr>
             (target_step pkg dir (tgt\<lparr>target_kind := pre\<rparr>) [])
           @ snd (fold (kind_step pkg dir tgt) post (True, []))"
proof -
  let ?F = "kind_step pkg dir tgt"
  obtain cs1 where pre: "fold ?F pre (False, []) = (False, cs1)"
    using fold_no_library_kind [OF assms(3), of pkg dir tgt False "[]"]
    by (cases "fold ?F pre (False, [])") simp
  have t_pre: "target_step pkg dir (tgt\<lparr>target_kind := pre\<rparr>) [] = cs1"
    using pre by (simp add: target_step_def kind_step_target_kind)
  let ?lib = "addConfig pkg dir (library_config_name tgt) [''test'', ''--no-run'', ''--lib'']
                \<lparr>filter_name = Some (target_name tgt), filter_kind = Some ''lib''\<rparr> cs1"
  have "fold ?F (pre @ k # post) (False, []) = fold ?F post (True, ?lib)"
    using pre kind_step_library [OF assms(2), of pkg dir tgt cs1] by simp
  also have "\<dots> = (fst (fold ?F post (True, [])), ?lib @ snd (fold ?F post (True, [])))"
    by (rule fold_kind_step_acc)
  finally show ?thesis
    using assms(1) t_pre by (simp add: target_step_def)
qed

lemma first_library_kind:
  assumes "list_ex is_library_kind ks"
  shows "\<exists>pre k post. ks = pre @ k # post \<and> is_library_kind k \<and> \<not> list_ex is_library_kind pre"
proof -
  from assms have "\<exists>k \<in> set ks. is_library_kind k"
    by (simp add: list_ex_iff)
  then obtain pre k post where "ks = pre @ k # post" "is_library_kind k"
      "\<forall>y \<in> set pre. \<not> is_library_kind y"
    using split_list_first_prop [of ks is_library_kind] by blast
  then show ?thesis
    by (auto simp: list_ex_iff)
qed

lemma library_configs_of_target:
  assumes "list_ex is_library_kind (target_kind tgt)"
  shows "filter (is_library_config tgt) (target_step pkg dir tgt []) =
           addConfig pkg dir (library_config_name tgt) [''test'', ''--no-run'', ''--lib'']
             \<lparr>filter_name = Some (target_name tgt), filter_kind = Some ''lib''\<rparr> []"
proof -
  from first_library_kind [OF assms] obtain pre k post where
    d: "target_kind tgt = pre @ k # post" "is_library_kind k" "\<not> list_ex is_library_kind pre"
    by blast
  have pre: "filter (is_library_config tgt) (target_step pkg dir (tgt\<lparr>target_kind := pre\<rparr>) []) = []"
    using fold_no_library_kind [OF d(3), of pkg dir tgt False "[]"]
    by (simp add: target_step_def kind_step_target_kind)
  have post: "filter (is_library_config tgt) (snd (fold (kind_step pkg dir tgt) post (True, []))) = []"
    using fold_added_no_library [of tgt pkg dir post "[]"] by simp
  show ?thesis
    unfolding target_step_first_library [OF d]
    by (simp add: addConfig_library_name pre post)
qed

text \<open>The configurations of one target with a library kind.\<close>

lemma library_descriptor_of_target:
  assumes "list_ex is_library_kind (target_kind tgt)"
  shows "length (filter (is_library_config tgt) (target_step pkg dir tgt [])) = 1
       \<and> (\<exists>pre k post.
             target_kind tgt = pre @ k # post \<and> is_library_kind k
             \<and> \<not> list_ex is_library_kind pre
             \<and> target_step pkg dir tgt [] =
                 target_step pkg dir (tgt\<lparr>target_kind := pre\<rparr>) []
                 @ addConfig pkg dir (library_config_name tgt) [''test'', ''--no-run'', ''--lib'']
                     \<lparr>filter_name = Some (target_name tgt), filter_kind = Some ''lib''\<rparr> []
                 @ snd (fold (kind_step pkg dir tgt) post (True, []))
             \<and> \<not> list_ex (is_library_config tgt)
                   (target_step pkg dir (tgt\<lparr>target_kind := pre\<rparr>) [])
             \<and> \<not> list_ex (is_library_config tgt)
                   (snd (fold (kind_step pkg dir tgt) post (True, []))))"
proof -
  have one: "length (filter (is_library_config tgt) (target_step pkg dir tgt [])) = 1"
    by (simp add: library_configs_of_target [OF assms] addConfig_def)
  from first_library_kind [OF assms] obtain pre k post where
    d: "target_kind tgt = pre @ k # post" "is_library_kind k" "\<not> list_ex is_library_kind pre"
    by blast
  have pre: "filter (is_library_config tgt) (target_step pkg dir (tgt\<lparr>target_kind := pre\<rparr>) []) = []"
    using fold_no_library_kind [OF d(3), of pkg dir tgt False "[]"]
    by (simp add: target_step_def kind_step_target_kind)
  have post: "filter (is_library_config tgt) (snd (fold (kind_step pkg dir tgt) post (True, []))) = []"
    using fold_added_no_library [of tgt pkg dir post "[]"] by simp
  have run: "target_step pkg dir tgt [] =
                 target_step pkg dir (tgt\<lparr>target_kind := pre\<rparr>) []
                 @ addConfig pkg dir (library_config_name tgt) [''test'', ''--no-run'', ''--lib'']
                     \<lparr>filter_name = Some (target_name tgt), filter_kind = Some ''lib''\<rparr> []
                 @ snd (fold (kind_step pkg dir tgt) post (True, []))"
    unfolding target_step_first_library [OF d] by (simp add: addConfig_def)
  from pre have pre': "\<not> list_ex (is_library_config tgt)
                   (target_step pkg dir (tgt\<lparr>target_kind := pre\<rparr>) [])"
    by (simp add: filter_empty_conv list_ex_iff)
  from post have post': "\<not> list_ex (is_library_config tgt)
                   (snd (fold (kind_step pkg dir tgt) post (True, [])))"
    by (simp add: filter_empty_conv list_ex_iff)
  from one d run pre' post' show ?thesis by blast
qed


text \<open>The configurations of a target of the kind \<open>bin\<close>, or \<open>example\<close>.\<close>

lemma target_step_bin_example:
  "(target_kind tgt = [''bin''] \<longrightarrow>
      target_step pkg dir tgt [] =
        [\<lparr>config_type = ''lldb'', request = ''launch'',
          config_name = ''Debug executable '' @ [CHR 0x27] @ target_name tgt @ [CHR 0x27],
          program = None,
          cargo = Some
            \<lparr>cargo_args = [''build'', ''--bin='' @ target_name tgt,
                            ''--package='' @ package_name pkg],
             cargo_filter = \<lparr>filter_name = Some (target_name tgt), filter_kind = Some ''bin''\<rparr>,
             cargo_cwd = (case dir of None \<Rightarrow> None | Some d \<Rightarrow> if d = [] then None else Some d)\<rparr>,
          args = [], cwd = ''${workspaceFolder}''\<rparr>,
         \<lparr>config_type = ''lldb'', request = ''launch'',
          config_name = ''Debug unit tests in executable '' @ [CHR 0x27] @ target_name tgt
                          @ [CHR 0x27],
          program = None,
          cargo = Some
            \<lparr>cargo_args = [''test'', ''--no-run'', ''--bin='' @ target_name tgt,
                            ''--package='' @ package_name pkg],
             cargo_filter = \<lparr>filter_name = Some (target_name tgt), filter_kind = Some ''bin''\<rparr>,
             cargo_cwd = (case dir of None \<Rightarrow> None | Some d \<Rightarrow> if d = [] then None else Some d)\<rparr>,
          args = [], cwd = ''${workspaceFolder}''\<rparr>])
   \<and> (target_kind tgt = [''example''] \<longrightarrow>
      map config_name (target_step pkg dir tgt []) =
        [''Debug example '' @ [CHR 0x27] @ target_name tgt @ [CHR 0x27],
         ''Debug unit tests in example '' @ [CHR 0x27] @ target_name tgt @ [CHR 0x27]])"
  by (simp add: target_step_def kind_step_def addConfig_def Let_def)

text \<open>The configurations of the whole document are those of its targets, in order.\<close>

lemma target_step_acc:
  "target_step pkg dir tgt cs = cs @ target_step pkg dir tgt []"
  using fold_kind_step_acc [of pkg dir tgt "target_kind tgt" False cs]
  by (simp add: target_step_def)

lemma package_step_concat:
  "fold (target_step pkg dir) ts cs = cs @ concat (map (\<lambda>t. target_step pkg dir t []) ts)"
proof (induction ts arbitrary: cs)
  case Nil
  show ?case by simp
next
  case (Cons t ts)
  show ?case
    using Cons.IH [of "target_step pkg dir t cs"] target_step_acc [of pkg dir t cs] by simp
qed

lemma packages_concat:
  "fold (package_step dir) ps cs =
     cs @ concat (map (\<lambda>p. concat (map (\<lambda>t. target_step p dir t []) (targets p))) ps)"
proof (induction ps arbitrary: cs)
  case Nil
  show ?case by simp
next
  case (Cons p ps)
  show ?case
    using Cons.IH [of "package_step dir p cs"]
    by (simp add: package_step_def package_step_concat)
qed

lemma getLaunchConfigs_success:
  assumes "startsWith line ''{''" and "parse line = Inr md"
    and "\<not> list_ex (delivers_payload parse) after"
  shows "snd (getLaunchConfigs
                (\<lambda>a c. \<lparr>events = before @ StdoutLine line # after, ending = Close (Some 0)\<rparr>)
                parse wsPath dir)
         = Inr (fold (package_step dir) (packages md) [])"
proof -
  let ?F = "on_event parse (\<lambda>m st. (Some m, snd st))
              (\<lambda>stderr st. (fst st, snd st @ [stderr]))"
  obtain m0 out0 c0 where b: "fold ?F before ((None, []), []) = ((m0, out0), c0)"
    by (cases "fold ?F before ((None, []), [])") auto
  have l: "on_line parse (\<lambda>m st. (Some m, snd st)) line ((m0, out0), c0) = ((Some md, out0), c0)"
    using assms(1,2) by (simp add: on_line_def)
  have "fst (fst (fold ?F after ((Some md, out0), c0))) = Some md"
    using assms(3) by (intro metadata_untouched) simp_all
  then have m: "fst (fst (fold ?F (before @ StdoutLine line # after) ((None, []), []))) = Some md"
    using b l by simp
  have "snd (getLaunchConfigs
                (\<lambda>a c. \<lparr>events = before @ StdoutLine line # after, ending = Close (Some 0)\<rparr>)
                parse wsPath dir)
        = (case fst (fst (fold ?F (before @ StdoutLine line # after) ((None, []), []))) of
             None \<Rightarrow> Inl (Error no_metadata_msg)
           | Some md \<Rightarrow> Inr (fold (package_step dir) (packages md) []))"
    by (simp add: getLaunchConfigs_def runCargo_def Let_def split: option.splits
          del: fold_append fold_simps)
  then show ?thesis
    by (simp only: m option.case)
qed

lemma fold_target_step_acc:
  "fold (target_step pkg dir) ts cs = cs @ fold (target_step pkg dir) ts []"
  using package_step_concat [of pkg dir ts cs] package_step_concat [of pkg dir ts "[]"]
  by simp

lemma fold_package_step_acc:
  "fold (package_step dir) ps cs = cs @ fold (package_step dir) ps []"
  using packages_concat [of dir ps cs] packages_concat [of dir ps "[]"]
  by simp

text \<open>
  The list \<open>configs\<close> at the end, split at one target of one package: what the loops
  have pushed when they reach the target, what the loop over its kinds pushes, and what
  the loops push afterwards.
\<close>

lemma synthesis_at_target:
  assumes "ps = earlier_pkgs @ pkg # later_pkgs" and "targets pkg = earlier_tgts @ tgt # later_tgts"
  shows "fold (package_step dir) ps [] =
           fold (target_step pkg dir) earlier_tgts (fold (package_step dir) earlier_pkgs [])
           @ target_step pkg dir tgt []
           @ fold (package_step dir) later_pkgs (fold (target_step pkg dir) later_tgts [])"
proof -
  let ?B = "fold (target_step pkg dir) earlier_tgts (fold (package_step dir) earlier_pkgs [])"
  have "package_step dir pkg (fold (package_step dir) earlier_pkgs []) =
          fold (target_step pkg dir) later_tgts (target_step pkg dir tgt ?B)"
    using assms(2) by (simp add: package_step_def)
  also have "\<dots> = target_step pkg dir tgt ?B @ fold (target_step pkg dir) later_tgts []"
    by (rule fold_target_step_acc)
  also have "\<dots> = ?B @ target_step pkg dir tgt [] @ fold (target_step pkg dir) later_tgts []"
    using target_step_acc [of pkg dir tgt ?B] by simp
  finally have p: "package_step dir pkg (fold (package_step dir) earlier_pkgs []) =
          ?B @ target_step pkg dir tgt [] @ fold (target_step pkg dir) later_tgts []" .
  have "fold (package_step dir) ps [] =
          fold (package_step dir) later_pkgs (package_step dir pkg (fold (package_step dir) earlier_pkgs []))"
    using assms(1) by simp
  also have "\<dots> = package_step dir pkg (fold (package_step dir) earlier_pkgs [])
                   @ fold (package_step dir) later_pkgs []"
    by (rule fold_package_step_acc)
  also have "\<dots> = ?B @ target_step pkg dir tgt []
                   @ fold (target_step pkg dir) later_tgts [] @ fold (package_step dir) later_pkgs []"
    using p by simp
  also have "fold (target_step pkg dir) later_tgts [] @ fold (package_step dir) later_pkgs [] =
               fold (package_step dir) later_pkgs (fold (target_step pkg dir) later_tgts [])"
    using fold_package_step_acc [of dir later_pkgs "fold (target_step pkg dir) later_tgts []"] by simp
  finally show ?thesis .
qed

text \<open>
  Claim C6. Let the run of \<open>cargo metadata\<close> succeed with a document in which a target
  has a library kind (\<open>lib\<close>, \<open>rlib\<close>, \<open>staticlib\<close>, \<open>dylib\<close>, \<open>cstaticlib\<close>) in its kind
  list. The list returned by \<open>getLaunchConfigs\<close> is then what the loops had pushed when
  they reached the target, followed by the configurations of the target, followed by what
  the loops push afterwards; and exactly one of the configurations of the target is the
  one named for the unit tests in the library. It is emitted at the first library kind of
  the list: it follows the configurations of the kinds before that kind and precedes those
  of the kinds after it, and neither group holds another one.
\<close>

theorem library_descriptor_once:
  assumes "startsWith line ''{''" and "parse line = Inr md"
    and "\<not> list_ex (delivers_payload parse) after"
    and "packages md = earlier_pkgs @ pkg # later_pkgs" and "targets pkg = earlier_tgts @ tgt # later_tgts"
    and "list_ex is_library_kind (target_kind tgt)"
  shows "snd (getLaunchConfigs
                (\<lambda>a c. \<lparr>events = before @ StdoutLine line # after, ending = Close (Some 0)\<rparr>)
                parse wsPath dir)
           = Inr (fold (target_step pkg dir) earlier_tgts (fold (package_step dir) earlier_pkgs [])
                  @ target_step pkg dir tgt []
                  @ fold (package_step dir) later_pkgs (fold (target_step pkg dir) later_tgts []))
       \<and> length (filter (is_library_config tgt) (target_step pkg dir tgt [])) = 1
       \<and> (\<exists>pre k post.
             target_kind tgt = pre @ k # post \<and> is_library_kind k
             \<and> \<not> list_ex is_library_kind pre
             \<and> target_step pkg dir tgt [] =
                 target_step pkg dir (tgt\<lparr>target_kind := pre\<rparr>) []
                 @ addConfig pkg dir (library_config_name tgt) [''test'', ''--no-run'', ''--lib'']
                     \<lparr>filter_name = Some (target_name tgt), filter_kind = Some ''lib''\<rparr> []
                 @ snd (fold (kind_step pkg dir tgt) post (True, []))
             \<and> \<not> list_ex (is_library_config tgt)
                   (target_step pkg dir (tgt\<lparr>target_kind := pre\<rparr>) [])
             \<and> \<not> list_ex (is_library_config tgt)
                   (snd (fold (kind_step pkg dir tgt) post (True, []))))"
proof -
  have whole: "snd (getLaunchConfigs
                (\<lambda>a c. \<lparr>events = before @ StdoutLine line # after, ending = Close (Some 0)\<rparr>)
                parse wsPath dir)
           = Inr (fold (target_step pkg dir) earlier_tgts (fold (package_step dir) earlier_pkgs [])
                  @ target_step pkg dir tgt []
                  @ fold (package_step dir) later_pkgs (fold (target_step pkg dir) later_tgts []))"
    using getLaunchConfigs_success [where line = line and parse = parse and md = md, OF assms(1-3)]
      synthesis_at_target [OF assms(4,5)]
    by simp
  show ?thesis
    by (rule conjI [OF whole library_descriptor_of_target [OF assms(6)]])
qed

theorem library_descriptor_once_witness:
  "snd (getLaunchConfigs
          (\<lambda>a c. \<lparr>events = [] @ StdoutLine ''{...}'' # [], ending = Close (Some 0)\<rparr>)
          (\<lambda>line. Inr \<lparr>packages = [] @ \<lparr>package_name = ''demo'', targets = [] @
             \<lparr>target_name = ''demo'', target_kind = [''lib'', ''staticlib''], crate_types = []\<rparr>
               # []\<rparr> # []\<rparr>)
          ''/ws'' None)
   = Inr [\<lparr>config_type = ''lldb'', request = ''launch'',
           config_name = ''Debug unit tests in library '' @ [CHR 0x27] @ ''demo'' @ [CHR 0x27],
           program = None,
           cargo = Some \<lparr>cargo_args = [''test'', ''--no-run'', ''--lib'', ''--package=demo''],
                         cargo_filter = \<lparr>filter_name = Some ''demo'', filter_kind = Some ''lib''\<rparr>,
                         cargo_cwd = None\<rparr>,
           args = [], cwd = ''${workspaceFolder}''\<rparr>]
   \<and> length (filter
      (is_library_config \<lparr>target_name = ''demo'', target_kind = [''lib'', ''staticlib''], crate_types = []\<rparr>)
      (target_step \<lparr>package_name = ''demo'', targets = [] @
             \<lparr>target_name = ''demo'', target_kind = [''lib'', ''staticlib''], crate_types = []\<rparr>
               # []\<rparr> None
         \<lparr>target_name = ''demo'', target_kind = [''lib'', ''staticlib''], crate_types = []\<rparr> [])) = 1"
proof -
  let ?tgt = "\<lparr>target_name = ''demo'', target_kind = [''lib'', ''staticlib''], crate_types = []\<rparr>"
  let ?pkg = "\<lparr>package_name = ''demo'', targets = [] @ ?tgt # []\<rparr>"
  let ?md = "\<lparr>packages = [] @ ?pkg # []\<rparr>"
  have h1: "startsWith ''{...}'' ''{''"
    by (simp add: startsWith_def)
  have h2: "(\<lambda>line. Inr ?md :: string + cargo_metadata) ''{...}'' = Inr ?md"
    by simp
  have h3: "\<not> list_ex (delivers_payload (\<lambda>line. Inr ?md :: string + cargo_metadata)) []"
    by simp
  have h4: "packages ?md = [] @ ?pkg # []"
    by simp
  have h5: "targets ?pkg = [] @ ?tgt # []"
    by simp
  have h6: "list_ex is_library_kind (target_kind ?tgt)"
    by (simp add: is_library_kind_def)
  note w = library_descriptor_once [where line = "''{...}''"
      and parse = "\<lambda>line. Inr ?md :: string + cargo_metadata" and md = ?md and after = "[]"
      and earlier_pkgs = "[]" and pkg = ?pkg and later_pkgs = "[]" and earlier_tgts = "[]" and tgt = ?tgt and later_tgts = "[]"
      and before = "[]" and wsPath = "''/ws''" and dir = None, OF h1 h2 h3 h4 h5 h6]
  from w [THEN conjunct1] w [THEN conjunct2, THEN conjunct1] show ?thesis
    by (simp add: package_step_def target_step_def kind_step_def addConfig_def Let_def)
qed

text \<open>
  Claim C7. Let the run of \<open>cargo metadata\<close> succeed with a document in which a target
  has the kind list \<open>bin\<close> and nothing else. The list returned by \<open>getLaunchConfigs\<close> is
  then what the loops had pushed when they reached the target, followed by two
  configurations for the target, followed by what the loops push afterwards. The two are
  \<open>Debug executable '<name>'\<close>, which builds the binary, and
  \<open>Debug unit tests in executable '<name>'\<close>, which builds its tests without running
  them; both filter the artifacts by the name of the target and the kind \<open>bin\<close>. For the
  kind list \<open>example\<close> the label in the two names is \<open>example\<close> itself.
\<close>

theorem bin_target_descriptors:
  assumes "startsWith line ''{''" and "parse line = Inr md"
    and "\<not> list_ex (delivers_payload parse) after"
    and "packages md = earlier_pkgs @ pkg # later_pkgs" and "targets pkg = earlier_tgts @ tgt # later_tgts"
  shows "(target_kind tgt = [''bin''] \<longrightarrow>
      snd (getLaunchConfigs
             (\<lambda>a c. \<lparr>events = before @ StdoutLine line # after, ending = Close (Some 0)\<rparr>)
             parse wsPath dir)
      = Inr (fold (target_step pkg dir) earlier_tgts (fold (package_step dir) earlier_pkgs [])
        @ [\<lparr>config_type = ''lldb'', request = ''launch'',
          config_name = ''Debug executable '' @ [CHR 0x27] @ target_name tgt @ [CHR 0x27],
          program = None,
          cargo = Some
            \<lparr>cargo_args = [''build'', ''--bin='' @ target_name tgt,
                            ''--package='' @ package_name pkg],
             cargo_filter = \<lparr>filter_name = Some (target_name tgt), filter_kind = Some ''bin''\<rparr>,
             cargo_cwd = (case dir of None \<Rightarrow> None | Some d \<Rightarrow> if d = [] then None else Some d)\<rparr>,
          args = [], cwd = ''${workspaceFolder}''\<rparr>,
         \<lparr>config_type = ''lldb'', request = ''launch'',
          config_name = ''Debug unit tests in executable '' @ [CHR 0x27] @ target_name tgt
                          @ [CHR 0x27],
          program = None,
          cargo = Some
            \<lparr>cargo_args = [''test'', ''--no-run'', ''--bin='' @ target_name tgt,
                            ''--package='' @ package_name pkg],
             cargo_filter = \<lparr>filter_name = Some (target_name tgt), filter_kind = Some ''bin''\<rparr>,
             cargo_cwd = (case dir of None \<Rightarrow> None | Some d \<Rightarrow> if d = [] then None else Some d)\<rparr>,
          args = [], cwd = ''${workspaceFolder}''\<rparr>]
        @ fold (package_step dir) later_pkgs (fold (target_step pkg dir) later_tgts [])))
   \<and> (target_kind tgt = [''example''] \<longrightarrow>
      (\<exists>those.
         snd (getLaunchConfigs
                (\<lambda>a c. \<lparr>events = before @ StdoutLine line # after, ending = Close (Some 0)\<rparr>)
                parse wsPath dir)
         = Inr (fold (target_step pkg dir) earlier_tgts (fold (package_step dir) earlier_pkgs [])
                @ those
                @ fold (package_step dir) later_pkgs (fold (target_step pkg dir) later_tgts []))
         \<and> map config_name those =
             [''Debug example '' @ [CHR 0x27] @ target_name tgt @ [CHR 0x27],
              ''Debug unit tests in example '' @ [CHR 0x27] @ target_name tgt @ [CHR 0x27]]))"
proof -
  have whole: "snd (getLaunchConfigs
                (\<lambda>a c. \<lparr>events = before @ StdoutLine line # after, ending = Close (Some 0)\<rparr>)
                parse wsPath dir)
           = Inr (fold (target_step pkg dir) earlier_tgts (fold (package_step dir) earlier_pkgs [])
                  @ target_step pkg dir tgt []
                  @ fold (package_step dir) later_pkgs (fold (target_step pkg dir) later_tgts []))"
    using getLaunchConfigs_success [where line = line and parse = parse and md = md, OF assms(1-3)]
      synthesis_at_target [OF assms(4,5)]
    by simp
  show ?thesis
  proof (intro conjI impI)
    assume "target_kind tgt = [''bin'']"
    with target_step_bin_example [of tgt pkg dir] whole
    show "snd (getLaunchConfigs
             (\<lambda>a c. \<lparr>events = before @ StdoutLine line # after, ending = Close (Some 0)\<rparr>)
             parse wsPath dir)
      = Inr (fold (target_step pkg dir) earlier_tgts (fold (package_step dir) earlier_pkgs [])
        @ [\<lparr>config_type = ''lldb'', request = ''launch'',
          config_name = ''Debug executable '' @ [CHR 0x27] @ target_name tgt @ [CHR 0x27],
          program = None,
          cargo = Some
            \<lparr>cargo_args = [''build'', ''--bin='' @ target_name tgt,
                            ''--package='' @ package_name pkg],
             cargo_filter = \<lparr>filter_name = Some (target_name tgt), filter_kind = Some ''bin''\<rparr>,
             cargo_cwd = (case dir of None \<Rightarrow> None | Some d \<Rightarrow> if d = [] then None else Some d)\<rparr>,
          args = [], cwd = ''${workspaceFolder}''\<rparr>,
         \<lparr>config_type = ''lldb'', request = ''launch'',
          config_name = ''Debug unit tests in executable '' @ [CHR 0x27] @ target_name tgt
                          @ [CHR 0x27],
          program = None,
          cargo = Some
            \<lparr>cargo_args = [''test'', ''--no-run'', ''--bin='' @ target_name tgt,
                            ''--package='' @ package_name pkg],
             cargo_filter = \<lparr>filter_name = Some (target_name tgt), filter_kind = Some ''bin''\<rparr>,
             cargo_cwd = (case dir of None \<Rightarrow> None | Some d \<Rightarrow> if d = [] then None else Some d)\<rparr>,
          args = [], cwd = ''${workspaceFolder}''\<rparr>]
        @ fold (package_step dir) later_pkgs (fold (target_step pkg dir) later_tgts []))"
      by simp
  next
    assume "target_kind tgt = [''example'']"
    with target_step_bin_example [of tgt pkg dir]
    have names: "map config_name (target_step pkg dir tgt []) =
             [''Debug example '' @ [CHR 0x27] @ target_name tgt @ [CHR 0x27],
              ''Debug unit tests in example '' @ [CHR 0x27] @ target_name tgt @ [CHR 0x27]]"
      by simp
    show "\<exists>those.
         snd (getLaunchConfigs
                (\<lambda>a c. \<lparr>events = before @ StdoutLine line # after, ending = Close (Some 0)\<rparr>)
                parse wsPath dir)
         = Inr (fold (target_step pkg dir) earlier_tgts (fold (package_step dir) earlier_pkgs [])
                @ those
                @ fold (package_step dir) later_pkgs (fold (target_step pkg dir) later_tgts []))
         \<and> map config_name those =
             [''Debug example '' @ [CHR 0x27] @ target_name tgt @ [CHR 0x27],
              ''Debug unit tests in example '' @ [CHR 0x27] @ target_name tgt @ [CHR 0x27]]"
    proof (intro exI conjI)
      show "snd (getLaunchConfigs
                (\<lambda>a c. \<lparr>events = before @ StdoutLine line # after, ending = Close (Some 0)\<rparr>)
                parse wsPath dir)
         = Inr (fold (target_step pkg dir) earlier_tgts (fold (package_step dir) earlier_pkgs [])
                @ target_step pkg dir tgt []
                @ fold (package_step dir) later_pkgs (fold (target_step pkg dir) later_tgts []))"
        by (rule whole)
      show "map config_name (target_step pkg dir tgt []) =
             [''Debug example '' @ [CHR 0x27] @ target_name tgt @ [CHR 0x27],
              ''Debug unit tests in example '' @ [CHR 0x27] @ target_name tgt @ [CHR 0x27]]"
        by (rule names)
    qed
  qed
qed

theorem bin_target_descriptors_witness:
  "snd (getLaunchConfigs
          (\<lambda>a c. \<lparr>events = [] @ StdoutLine ''{...}'' # [], ending = Close (Some 0)\<rparr>)
          (\<lambda>line. Inr \<lparr>packages = [] @ \<lparr>package_name = ''demo'', targets = [] @
             \<lparr>target_name = ''demo'', target_kind = [''bin''], crate_types = [''bin'']\<rparr>
               # []\<rparr> # []\<rparr>)
          ''/ws'' None)
   = Inr [\<lparr>config_type = ''lldb'', request = ''launch'',
           config_name = ''Debug executable '' @ [CHR 0x27] @ ''demo'' @ [CHR 0x27],
           program = None,
           cargo = Some \<lparr>cargo_args = [''build'', ''--bin=demo'', ''--package=demo''],
                         cargo_filter = \<lparr>filter_name = Some ''demo'', filter_kind = Some ''bin''\<rparr>,
                         cargo_cwd = None\<rparr>,
           args = [], cwd = ''${workspaceFolder}''\<rparr>,
          \<lparr>config_type = ''lldb'', request = ''launch'',
           config_name = ''Debug unit tests in executable '' @ [CHR 0x27] @ ''demo'' @ [CHR 0x27],
           program = None,
           cargo = Some \<lparr>cargo_args = [''test'', ''--no-run'', ''--bin=demo'', ''--package=demo''],
                         cargo_filter = \<lparr>filter_name = Some ''demo'', filter_kind = Some ''bin''\<rparr>,
                         cargo_cwd = None\<rparr>,
           args = [], cwd = ''${workspaceFolder}''\<rparr>]"
proof -
  let ?tgt = "\<lparr>target_name = ''demo'', target_kind = [''bin''], crate_types = [''bin'']\<rparr>"
  let ?pkg = "\<lparr>package_name = ''demo'', targets = [] @ ?tgt # []\<rparr>"
  let ?md = "\<lparr>packages = [] @ ?pkg # []\<rparr>"
  have h1: "startsWith ''{...}'' ''{''"
    by (simp add: startsWith_def)
  have h2: "(\<lambda>line. Inr ?md :: string + cargo_metadata) ''{...}'' = Inr ?md"
    by simp
  have h3: "\<not> list_ex (delivers_payload (\<lambda>line. Inr ?md :: string + cargo_metadata)) []"
    by simp
  have h4: "packages ?md = [] @ ?pkg # []"
    by simp
  have h5: "targets ?pkg = [] @ ?tgt # []"
    by simp
  note w = bin_target_descriptors [where line = "''{...}''"
      and parse = "\<lambda>line. Inr ?md :: string + cargo_metadata" and md = ?md and after = "[]"
      and earlier_pkgs = "[]" and pkg = ?pkg and later_pkgs = "[]" and earlier_tgts = "[]" and tgt = ?tgt and later_tgts = "[]"
      and before = "[]" and wsPath = "''/ws''" and dir = None, OF h1 h2 h3 h4 h5]
  have h6: "target_kind ?tgt = [''bin'']"
    by simp
  from w [THEN conjunct1, THEN mp, OF h6] show ?thesis
    by simp
qed

text \<open>
  Claim C10, as amended. For a target whose kind list contains a library kind, whichever
  it is, the configuration for the unit tests in the library has the artifact filter with
  the name of the target and the kind \<open>lib\<close>, and its build arguments are \<open>test\<close>,
  \<open>--no-run\<close>, \<open>--lib\<close> followed by the argument \<open>--package=\<close> with the name of the
  package.
\<close>

theorem library_descriptor_filter_and_args:
  assumes "list_ex is_library_kind (target_kind tgt)"
  shows "filter (is_library_config tgt) (target_step pkg dir tgt []) =
           [\<lparr>config_type = ''lldb'', request = ''launch'',
             config_name = library_config_name tgt,
             program = None,
             cargo = Some
               \<lparr>cargo_args = [''test'', ''--no-run'', ''--lib'', ''--package='' @ package_name pkg],
                cargo_filter = \<lparr>filter_name = Some (target_name tgt), filter_kind = Some ''lib''\<rparr>,
                cargo_cwd = (case dir of None \<Rightarrow> None | Some d \<Rightarrow> if d = [] then None else Some d)\<rparr>,
             args = [], cwd = ''${workspaceFolder}''\<rparr>]"
  by (simp add: library_configs_of_target [OF assms] addConfig_def)

text \<open>
  The claim as stated gives the build arguments as \<open>test\<close>, \<open>--no-run\<close>, \<open>--lib\<close> alone;
  \<open>addConfig\<close> appends the package selection to every argument list.
\<close>

theorem library_descriptor_args_counterexample:
  "map (\<lambda>c. map_option cargo_args (cargo c))
     (target_step \<lparr>package_name = ''demo'', targets = []\<rparr> None
        \<lparr>target_name = ''demo'', target_kind = [''rlib''], crate_types = [''rlib'']\<rparr> [])
   = [Some [''test'', ''--no-run'', ''--lib'', ''--package=demo'']]
   \<and> map (\<lambda>c. map_option cargo_args (cargo c))
     (target_step \<lparr>package_name = ''demo'', targets = []\<rparr> None
        \<lparr>target_name = ''demo'', target_kind = [''rlib''], crate_types = [''rlib'']\<rparr> [])
   \<noteq> [Some [''test'', ''--no-run'', ''--lib'']]"
  by (simp add: target_step_def kind_step_def addConfig_def Let_def)

theorem library_descriptor_filter_and_args_witness:
  "map (\<lambda>c. map_option cargo_filter (cargo c))
     (filter
        (is_library_config \<lparr>target_name = ''demo'', target_kind = [''bin'', ''dylib'', ''lib''], crate_types = []\<rparr>)
        (target_step \<lparr>package_name = ''pkg'', targets = []\<rparr> (Some ''/work'')
           \<lparr>target_name = ''demo'', target_kind = [''bin'', ''dylib'', ''lib''], crate_types = []\<rparr> []))
   = [Some \<lparr>filter_name = Some ''demo'', filter_kind = Some ''lib''\<rparr>]"
proof -
  have h: "list_ex is_library_kind
      (target_kind \<lparr>target_name = ''demo'', target_kind = [''bin'', ''dylib'', ''lib''], crate_types = []\<rparr>)"
    by (simp add: is_library_kind_def)
  show ?thesis
    using library_descriptor_filter_and_args [OF h, of "\<lparr>package_name = ''pkg'', targets = []\<rparr>"
            "Some ''/work''"]
    by simp
qed

subsection \<open>The arguments given to cargo\<close>

lemma indexOf_absent: "y \<notin> set xs \<Longrightarrow> indexOf xs y = -1"
  by (induction xs) (auto simp: Let_def)

lemma indexOf_present:
  "y \<in> set xs \<Longrightarrow> indexOf xs y = int (length (takeWhile (\<lambda>x. x \<noteq> y) xs))"
proof (induction xs)
  case Nil
  then show ?case by simp
next
  case (Cons x xs)
  show ?case
  proof (cases "x = y")
    case True
    then show ?thesis by simp
  next
    case False
    with Cons.prems have "y \<in> set xs" by simp
    with Cons.IH False show ?thesis by (simp add: Let_def)
  qed
qed

lemma splice_at_separator:
  "splice_insert xs
     (if indexOf xs ''--'' \<ge> 0 then nat (indexOf xs ''--'') else length xs)
     [''--message-format=json'', ''--color=always'']
   = spec_with_flags xs"
proof (cases "''--'' \<in> set xs")
  case True
  have "take (length (takeWhile (\<lambda>x. x \<noteq> ''--'') xs)) xs = takeWhile (\<lambda>x. x \<noteq> ''--'') xs"
    by (simp add: takeWhile_eq_take [symmetric])
  moreover have "drop (length (takeWhile (\<lambda>x. x \<noteq> ''--'') xs)) xs = dropWhile (\<lambda>x. x \<noteq> ''--'') xs"
    by (simp add: dropWhile_eq_drop [symmetric])
  ultimately show ?thesis
    using True by (simp add: indexOf_present splice_insert_def spec_with_flags_def)
next
  case False
  then show ?thesis
    by (simp add: indexOf_absent splice_insert_def spec_with_flags_def)
qed

lemma insert_flags_store:
  assumes "task_args taskDef = Some a"
  shows "cells (fst (insert_flags h taskDef)) = (cells h)(a := spec_with_flags (cells h a))"
    and "next_free (fst (insert_flags h taskDef)) = next_free h"
  using assms by (simp_all add: insert_flags_def Let_def splice_at_separator)

text \<open>The task definition that the host resolves from a configuration with arguments.\<close>

lemma host_resolve_args:
  assumes "config_args cargoConfig = Some b"
  shows "task_args (fst (host_resolve resolveVar h cargoConfig)) = Some (next_free h)"
    and "task_cwd (fst (host_resolve resolveVar h cargoConfig)) =
           map_option resolveVar (config_cwd cargoConfig)"
    and "cells (snd (host_resolve resolveVar h cargoConfig)) =
           (cells h)(next_free h := map resolveVar (cells h b))"
    and "next_free (snd (host_resolve resolveVar h cargoConfig)) = next_free h + 1"
  using assms by (simp_all add: host_resolve_def new_array_def Let_def)

lemma open_pty_artifacts:
  "artifacts_var (open_pty spawn parse wsPath formatError h taskDef) =
     snd (snd (getCargoArtifacts spawn parse wsPath
       (spawned_args (fst (insert_flags h taskDef)) taskDef) (task_cwd taskDef)
       (\<lambda>message out. out @ [replace_newline message]) [snd (insert_flags h taskDef)]))"
  by (simp add: open_pty_def Let_def split: sum.splits)

lemma open_pty_store:
  "store_after (open_pty spawn parse wsPath formatError h taskDef) = fst (insert_flags h taskDef)"
  by (simp add: open_pty_def Let_def split: sum.splits)

lemma insert_flags_announcement:
  assumes "task_args taskDef = Some a"
  shows "snd (insert_flags h taskDef) =
           ''Running `cargo '' @ join (spec_with_flags (cells h a)) '' '' @ ''`...''
             @ [CHR 0x0D, CHR 0x0A]"
  using assms by (simp add: insert_flags_def Let_def splice_at_separator)

lemma open_pty_spawn:
  assumes "task_args taskDef = Some a"
  shows "open_pty spawn parse wsPath formatError h taskDef
           = open_pty (\<lambda>xs. spawn (spec_with_flags (cells h a))) parse wsPath formatError h taskDef"
proof -
  have run: "spawned_args (fst (insert_flags h taskDef)) taskDef = spec_with_flags (cells h a)"
    using assms by (simp add: spawned_args_def insert_flags_store [OF assms])
  have g: "getCargoArtifacts spawn parse wsPath xs dir onMessage s0 =
           getCargoArtifacts (\<lambda>ys. spawn xs) parse wsPath xs dir onMessage s0"
    for xs dir and onMessage :: "string \<Rightarrow> string list \<Rightarrow> string list" and s0
    by (simp add: getCargoArtifacts_def runCargo_def)
  show ?thesis
    by (simp only: open_pty_def Let_def run g)
qed

text \<open>
  Claim C9. For a configuration that has an argument list, the callback receives the
  host's resolved copy of the list, and the list given to the process is that list with
  \<open>--message-format=json\<close> and \<open>--color=always\<close> inserted immediately before its
  first \<open>--\<close>, or appended when it has none: the artifacts are those of
  \<open>getCargoArtifacts\<close> run with these arguments, and the process is spawned with no
  other argument list. The flags are spliced into the array of the resolved definition,
  so the array of the configuration, like every array that existed before the call, holds
  afterwards what it held before.
\<close>

theorem cargo_args_flags_inserted_on_copy:
  assumes "config_args cargoConfig = Some b" and "b < next_free h"
  shows "artifacts_var (fst (snd (getProgramFromCargoConfig spawn parse wsPath formatError inspect
                                   resolveVar h cargoConfig)))
           = snd (snd (getCargoArtifacts spawn parse wsPath
               (spec_with_flags (map resolveVar (cells h b)))
               (map_option resolveVar (config_cwd cargoConfig))
               (\<lambda>message out. out @ [replace_newline message])
               [''Running `cargo '' @ join (spec_with_flags (map resolveVar (cells h b))) '' ''
                  @ ''`...'' @ [CHR 0x0D, CHR 0x0A]]))
       \<and> getProgramFromCargoConfig spawn parse wsPath formatError inspect resolveVar h cargoConfig
           = getProgramFromCargoConfig
               (\<lambda>xs. spawn (spec_with_flags (map resolveVar (cells h b))))
               parse wsPath formatError inspect resolveVar h cargoConfig
       \<and> cells (store_after (fst (snd (getProgramFromCargoConfig spawn parse wsPath formatError
                                          inspect resolveVar h cargoConfig)))) b
           = cells h b
       \<and> (\<forall>c. c < next_free h \<longrightarrow>
             cells (store_after (fst (snd (getProgramFromCargoConfig spawn parse wsPath formatError
                                          inspect resolveVar h cargoConfig)))) c
             = cells h c)"
proof -
  let ?cfg = "cargoConfig\<lparr>config_command := ''dummy''\<rparr>"
  let ?td = "fst (host_resolve resolveVar h ?cfg)"
  let ?h1 = "snd (host_resolve resolveVar h ?cfg)"
  let ?ys = "spec_with_flags (map resolveVar (cells h b))"
  have cfg: "config_args ?cfg = Some b"
    using assms(1) by simp
  note hr = host_resolve_args [OF cfg, of resolveVar h]
  have at: "cells ?h1 (next_free h) = map resolveVar (cells h b)"
    by (simp add: hr(3))
  have open_eq: "fst (snd (getProgramFromCargoConfig sp parse wsPath formatError inspect
                     resolveVar h cargoConfig)) = open_pty sp parse wsPath formatError ?h1 ?td"
    for sp
    by (simp add: getProgramFromCargoConfig_def Let_def split: sum.splits)
  have run: "spawned_args (fst (insert_flags ?h1 ?td)) ?td = ?ys"
    using insert_flags_store(1) [OF hr(1), of ?h1] hr(1) at
    by (simp add: spawned_args_def)
  have ann: "snd (insert_flags ?h1 ?td) =
      ''Running `cargo '' @ join ?ys '' '' @ ''`...'' @ [CHR 0x0D, CHR 0x0A]"
    using insert_flags_announcement [OF hr(1), of ?h1] at by simp
  have c1: "artifacts_var (fst (snd (getProgramFromCargoConfig spawn parse wsPath formatError inspect
                                   resolveVar h cargoConfig)))
           = snd (snd (getCargoArtifacts spawn parse wsPath ?ys
               (map_option resolveVar (config_cwd cargoConfig))
               (\<lambda>message out. out @ [replace_newline message])
               [''Running `cargo '' @ join ?ys '' '' @ ''`...'' @ [CHR 0x0D, CHR 0x0A]]))"
    unfolding open_eq open_pty_artifacts run ann hr(2) by simp
  have c2: "getProgramFromCargoConfig spawn parse wsPath formatError inspect resolveVar h cargoConfig
           = getProgramFromCargoConfig (\<lambda>xs. spawn ?ys)
               parse wsPath formatError inspect resolveVar h cargoConfig"
  proof -
    have eq: "open_pty spawn parse wsPath formatError ?h1 ?td
                = open_pty (\<lambda>xs. spawn ?ys) parse wsPath formatError ?h1 ?td"
      using open_pty_spawn [OF hr(1), of spawn parse wsPath formatError ?h1] at by simp
    show ?thesis
      by (simp only: getProgramFromCargoConfig_def Let_def eq)
  qed
  have after: "cells (store_after (fst (snd (getProgramFromCargoConfig spawn parse wsPath
                  formatError inspect resolveVar h cargoConfig))))
               = (cells h)(next_free h := ?ys)"
    unfolding open_eq open_pty_store
    using insert_flags_store(1) [OF hr(1), of ?h1] at by (simp add: hr(3))
  have c4: "\<forall>c. c < next_free h \<longrightarrow>
             cells (store_after (fst (snd (getProgramFromCargoConfig spawn parse wsPath formatError
                                          inspect resolveVar h cargoConfig)))) c
             = cells h c"
    unfolding after by simp
  from c4 assms(2) have c3: "cells (store_after (fst (snd (getProgramFromCargoConfig spawn parse
              wsPath formatError inspect resolveVar h cargoConfig)))) b = cells h b"
    by blast
  from c1 c2 c3 c4 show ?thesis by (intro conjI)
qed

theorem cargo_args_flags_inserted_on_copy_witness:
  "artifacts_var (fst (snd (getProgramFromCargoConfig
      (\<lambda>xs c. if xs = [''test'', ''--message-format=json'', ''--color=always'', ''--'', ''--nocapture'']
               then \<lparr>events = [StdoutLine ''{x}''], ending = Close (Some 0)\<rparr>
               else \<lparr>events = [], ending = Failed (SpawnError ''ENOENT'')\<rparr>)
      (\<lambda>line. Inr \<lparr>reason = ''compiler-artifact'',
                     target = \<lparr>target_name = ''foo'', target_kind = [''bin''],
                               crate_types = [''bin'']\<rparr>,
                     profile_test = True,
                     executable = Value ''/p/target/debug/foo'',
                     filenames = [],
                     rendered = []\<rparr>)
      ''/ws'' (\<lambda>e. ''failed'') fileName (\<lambda>s. s)
      \<lparr>cells = (\<lambda>a. [])(0 := [''test'', ''--'', ''--nocapture'']), next_free = 1\<rparr>
      \<lparr>config_command = ''cargo'', config_args = Some 0, config_cwd = None,
       config_filter = None\<rparr>)))
   = Inr [\<lparr>fileName = ''/p/target/debug/foo'', artifact_name = ''foo'',
           artifact_kind = Some ''bin''\<rparr>]
   \<and> cells (store_after (fst (snd (getProgramFromCargoConfig
      (\<lambda>xs c. if xs = [''test'', ''--message-format=json'', ''--color=always'', ''--'', ''--nocapture'']
               then \<lparr>events = [StdoutLine ''{x}''], ending = Close (Some 0)\<rparr>
               else \<lparr>events = [], ending = Failed (SpawnError ''ENOENT'')\<rparr>)
      (\<lambda>line. Inr \<lparr>reason = ''compiler-artifact'',
                     target = \<lparr>target_name = ''foo'', target_kind = [''bin''],
                               crate_types = [''bin'']\<rparr>,
                     profile_test = True,
                     executable = Value ''/p/target/debug/foo'',
                     filenames = [],
                     rendered = []\<rparr>)
      ''/ws'' (\<lambda>e. ''failed'') fileName (\<lambda>s. s)
      \<lparr>cells = (\<lambda>a. [])(0 := [''test'', ''--'', ''--nocapture'']), next_free = 1\<rparr>
      \<lparr>config_command = ''cargo'', config_args = Some 0, config_cwd = None,
       config_filter = None\<rparr>)))) 0
   = [''test'', ''--'', ''--nocapture'']"
proof -
  let ?cfg = "\<lparr>config_command = ''cargo'', config_args = Some 0, config_cwd = None,
       config_filter = None\<rparr>"
  let ?h = "\<lparr>cells = (\<lambda>a. [])(0 := [''test'', ''--'', ''--nocapture'']), next_free = 1\<rparr>"
  have h1: "config_args ?cfg = Some 0"
    by simp
  have h2: "(0::nat) < next_free ?h"
    by simp
  note w = cargo_args_flags_inserted_on_copy [where cargoConfig = ?cfg and b = 0 and h = ?h
      and resolveVar = "\<lambda>s. s" and wsPath = "''/ws''" and formatError = "\<lambda>e. ''failed''"
      and inspect = fileName
      and spawn = "\<lambda>xs c. if xs = [''test'', ''--message-format=json'', ''--color=always'', ''--'', ''--nocapture'']
               then \<lparr>events = [StdoutLine ''{x}''], ending = Close (Some 0)\<rparr>
               else \<lparr>events = [], ending = Failed (SpawnError ''ENOENT'')\<rparr>"
      and parse = "\<lambda>line. Inr \<lparr>reason = ''compiler-artifact'',
                     target = \<lparr>target_name = ''foo'', target_kind = [''bin''],
                               crate_types = [''bin'']\<rparr>,
                     profile_test = True,
                     executable = Value ''/p/target/debug/foo'',
                     filenames = [],
                     rendered = []\<rparr>", OF h1 h2]
  from w [THEN conjunct1] w [THEN conjunct2, THEN conjunct2, THEN conjunct1] show ?thesis
    by (simp add: spec_with_flags_def getCargoArtifacts_def runCargo_def on_line_def
          on_cargo_message_def startsWith_def at_index_def)
qed

end
